theory Spec2Isabelle
  imports Complex_Main "HOL-Library.Sublist"
begin

section \<open>Values, errors and responses\<close>

text \<open>
  Times are milliseconds since the epoch (what \<open>Date.now()\<close> and \<open>new Date()\<close> read, and
  what a \<open>TIMESTAMP WITH TIME ZONE\<close> column holds). A calendar day is the number of the UTC
  day, standing for the string \<open>new Date().toISOString().split('T')[0]\<close>: two instants have
  the same string exactly when they have the same day number.
\<close>

type_synonym time = int
type_synonym day = int

definition hour_ms :: int where
  "hour_ms = 3600000"

definition day_ms :: int where
  "day_ms = 86400000"

definition today_of :: "time \<Rightarrow> day" where
  "today_of t = t div day_ms"

text \<open>What the upstream provider may send back: any JSON document. Numbers are kept as
  rationals; the code only ever tests them for truthiness. An object is the list of its
  members, each key once (as \<open>JSON.parse\<close> leaves it).\<close>

datatype json =
    JNull
  | JBool bool
  | JNum rat
  | JStr string
  | JArr "json list"
  | JObj "(string \<times> json) list"

text \<open>JavaScript truthiness of a parsed JSON value.\<close>

fun truthy :: "json \<Rightarrow> bool" where
  "truthy JNull = False"
| "truthy (JBool b) = b"
| "truthy (JNum n) = (n \<noteq> 0)"
| "truthy (JStr s) = (s \<noteq> [])"
| "truthy (JArr xs) = True"
| "truthy (JObj kvs) = True"

text \<open>\<open>typeof v === 'object'\<close>: objects, arrays and \<open>null\<close>.\<close>

fun typeof_object :: "json \<Rightarrow> bool" where
  "typeof_object JNull = True"
| "typeof_object (JArr xs) = True"
| "typeof_object (JObj kvs) = True"
| "typeof_object v = False"

datatype js_error =
    Error string
  | TypeError string
  | ReferenceError string
  | SyntaxError string

fun message :: "js_error \<Rightarrow> string" where
  "message (Error m) = m"
| "message (TypeError m) = m"
| "message (ReferenceError m) = m"
| "message (SyntaxError m) = m"

text \<open>Property read \<open>v.p\<close> on a value other than \<open>null\<close>, for the property names
  the handler uses (\<open>data\<close>, \<open>name\<close>, \<open>fname\<close>, \<open>mobile\<close>, \<open>alt\<close>, \<open>address\<close>,
  \<open>circle\<close>, \<open>id\<close>): a parsed object gives its own property or \<open>undefined\<close> (\<open>None\<close>);
  arrays, strings, numbers and booleans have none of these properties. Reading a property
  of \<open>null\<close> throws a TypeError, which the callers below write out.\<close>

fun prop_of :: "json \<Rightarrow> string \<Rightarrow> json option" where
  "prop_of (JObj kvs) p = map_of kvs p"
| "prop_of v p = None"

text \<open>\<open>v || d\<close> where \<open>v\<close> may be \<open>undefined\<close>.\<close>

definition or_default :: "json option \<Rightarrow> json \<Rightarrow> json" where
  "or_default v d = (case v of None \<Rightarrow> d | Some j \<Rightarrow> if truthy j then j else d)"

text \<open>\<open>s || d\<close> for an optional string (a query parameter or header).\<close>

definition str_or :: "string option \<Rightarrow> string \<Rightarrow> string" where
  "str_or v d = (case v of None \<Rightarrow> d | Some s \<Rightarrow> if s = [] then d else s)"

definition falsy_str :: "string option \<Rightarrow> bool" where
  "falsy_str v = (case v of None \<Rightarrow> True | Some s \<Rightarrow> s = [])"

text \<open>\<open>hay.includes(needle)\<close>.\<close>

fun str_includes :: "string \<Rightarrow> string \<Rightarrow> bool" where
  "str_includes [] needle = (needle = [])"
| "str_includes (c # cs) needle = (prefix needle (c # cs) \<or> str_includes cs needle)"

section \<open>The relational store\<close>

record api_key_row =
  ak_id :: int
  key_hash :: string
  api_key :: string
  user_id :: "int option"
  expires_at :: "time option"
  is_paused :: bool
  daily_limit :: int
  daily_used :: int
  last_reset_date :: "day option"

record user_row =
  u_id :: int
  username :: string
  is_active :: bool

record usage_log_row =
  api_key_id :: int
  mobile_number :: string
  response_time :: int
  status :: string
  ip_address :: string
  user_agent :: "string option"
  created_at :: time

text \<open>The database: its three tables, and the input function of its type \<open>INET\<close>, taken
  as a parameter. The column \<open>ip_address\<close> is of type \<open>INET\<close>: it holds addresses, not
  texts. \<open>inet_in\<close> gives the address a text stands for, in the form in which the database
  writes addresses (two texts stand for the same address exactly when they are given the
  same form), or \<open>None\<close> for a text that is no address, on which a statement that uses the
  text as an address fails.\<close>

record db =
  api_keys :: "api_key_row list"
  users :: "user_row list"
  api_usage_logs :: "usage_log_row list"
  inet_in :: "string \<Rightarrow> string option"

text \<open>The row that \<open>getApiKey\<close> selects: columns of the key and the owner's username.\<close>

record api_key_info =
  id' :: int
  info_user_id :: "int option"
  info_expires_at :: "time option"
  info_is_paused :: bool
  info_daily_limit :: int
  info_daily_used :: int
  info_last_reset_date :: "day option"
  info_username :: string

definition select_info :: "api_key_row \<Rightarrow> user_row \<Rightarrow> api_key_info" where
  "select_info ak u =
     \<lparr> id' = ak_id ak, info_user_id = user_id ak, info_expires_at = expires_at ak,
       info_is_paused = is_paused ak, info_daily_limit = daily_limit ak,
       info_daily_used = daily_used ak, info_last_reset_date = last_reset_date ak,
       info_username = username u \<rparr>"

text \<open>\<open>getApiKey\<close>: the inner join of \<open>api_keys\<close> with \<open>users\<close> on \<open>ak.user_id = u.id\<close>,
  restricted to the fingerprint; \<open>result.rows[0]\<close> is the first joined row, or \<open>undefined\<close>.\<close>

definition getApiKey :: "db \<Rightarrow> string \<Rightarrow> api_key_info option" where
  "getApiKey d keyHash =
     (case concat (map (\<lambda>ak. map (select_info ak)
                                  (filter (\<lambda>u. user_id ak = Some (u_id u)) (users d)))
                       (filter (\<lambda>ak. key_hash ak = keyHash) (api_keys d))) of
        [] \<Rightarrow> None
      | row # rest \<Rightarrow> Some row)"

text \<open>What the test \<open>keyInfo.rows[0]?.last_reset_date !== today\<close> compares. The database
  client hands a \<open>DATE\<close> column back as a \<open>Date\<close> object (or \<open>null\<close>), and the optional
  chaining gives \<open>undefined\<close> when there is no row; \<open>today\<close> is a string, given here by its
  day. Strict equality holds between two strings of the same day and between \<open>null\<close> and
  \<open>null\<close> or \<open>undefined\<close> and \<open>undefined\<close>; an object is strictly equal only to itself,
  never to a string.\<close>

datatype js_value =
    Undefined
  | Null
  | DateObject day
  | DateString day

fun strict_equal :: "js_value \<Rightarrow> js_value \<Rightarrow> bool" where
  "strict_equal Undefined Undefined = True"
| "strict_equal Null Null = True"
| "strict_equal (DateString a) (DateString b) = (a = b)"
| "strict_equal v w = False"

text \<open>\<open>incrementApiUsage\<close>: reads \<open>last_reset_date\<close> of the key, then runs one of two
  updates.\<close>

definition incrementApiUsage :: "db \<Rightarrow> day \<Rightarrow> int \<Rightarrow> db" where
  "incrementApiUsage d today apiKeyId =
     (let keyInfo = find (\<lambda>k. ak_id k = apiKeyId) (api_keys d);
          stored = (case keyInfo of
                      None \<Rightarrow> Undefined
                    | Some k \<Rightarrow> (case last_reset_date k of None \<Rightarrow> Null | Some x \<Rightarrow> DateObject x))
      in
      if \<not> strict_equal stored (DateString today)
      then d\<lparr>api_keys := map (\<lambda>k. if ak_id k = apiKeyId
                                    then k\<lparr>daily_used := 1, last_reset_date := Some today\<rparr>
                                    else k) (api_keys d)\<rparr>
      else d\<lparr>api_keys := map (\<lambda>k. if ak_id k = apiKeyId
                                    then k\<lparr>daily_used := daily_used k + 1\<rparr>
                                    else k) (api_keys d)\<rparr>)"

text \<open>\<open>logUsage\<close>: one \<open>INSERT\<close> into \<open>api_usage_logs\<close>; \<open>created_at\<close> defaults to the
  current timestamp. The statement fails when the text given for \<open>ip_address\<close> is no
  address, and it may fail for reasons of the store (it is unreachable, the row is refused);
  the flag \<open>write_ok\<close> says whether the store accepts it.\<close>

definition logUsage ::
  "bool \<Rightarrow> time \<Rightarrow> db \<Rightarrow> int \<Rightarrow> string \<Rightarrow> int \<Rightarrow> string \<Rightarrow> string \<Rightarrow> string option \<Rightarrow> js_error + db" where
  "logUsage write_ok t d apiKeyId mobileNumber responseTime st ip userAgent =
     (case inet_in d ip of
        None \<Rightarrow> Inl (Error ''invalid input syntax for type inet'')
      | Some addr \<Rightarrow>
          if write_ok
          then Inr (d\<lparr>api_usage_logs := api_usage_logs d @
                      [\<lparr> api_key_id = apiKeyId, mobile_number = mobileNumber,
                         response_time = responseTime, status = st, ip_address = addr,
                         user_agent = userAgent, created_at = t \<rparr>]\<rparr>)
          else Inl (Error ''usage insert failed''))"

section \<open>The lookup endpoint\<close>

text \<open>The parts of the request the handler reads: \<open>req.method\<close>, \<open>req.query.key\<close>,
  \<open>req.query.number\<close>, the headers \<open>x-forwarded-for\<close> and \<open>user-agent\<close>, and
  \<open>req.connection.remoteAddress\<close>; \<open>None\<close> is \<open>undefined\<close>.\<close>

record request =
  http_method :: string
  q_key :: "string option"
  q_number :: "string option"
  x_forwarded_for :: "string option"
  remoteAddress :: "string option"
  h_user_agent :: "string option"

text \<open>The result of \<open>axios.get\<close>: it throws on a timeout, a network failure or a status
  outside 2xx (the string is the raw error text), otherwise it gives the parsed body.\<close>

datatype upstream_result =
    UpstreamThrows string
  | UpstreamData json

text \<open>What one request sees of the world outside the store: the clock, the one-way hash
  \<open>hashApiKey\<close> (SHA-256 in hex, taken as a parameter), the upstream provider's address,
  credential and answer, the time the upstream call took, and whether usage inserts succeed.
  A request is served at one instant \<open>now\<close>: the several clock readings of the source
  (\<open>new Date()\<close>, \<open>NOW()\<close>, \<open>CURRENT_TIMESTAMP\<close>) within one request are taken to agree, and
  \<open>Date.now() - startTime\<close> is \<open>upstream_elapsed\<close>.\<close>

record env =
  now :: time
  sha256 :: "string \<Rightarrow> string"
  BASE_API_URL :: string
  BASE_API_KEY :: string
  upstream :: upstream_result
  upstream_elapsed :: int
  usage_write_ok :: bool

text \<open>A cleaned entry (the field \<open>id\<close> is \<open>ident\<close> here) and the \<open>meta\<close> object of a
  success body; \<open>processed_at\<close> holds the instant whose ISO string the source sends.\<close>

record entry =
  name :: json
  fname :: json
  mobile :: json
  alt :: json
  address :: json
  circle :: json
  ident :: json

record meta =
  query :: string
  results :: nat
  processed_at :: time

text \<open>The bodies the handler sends, one constructor per object literal of the source.\<close>

datatype body =
    NoBody
  | ErrorBody string
  | ErrorAllowedBody string string
  | ErrorRequiredBody string string
  | ErrorRetryBody string nat
  | SuccessBody bool "entry list" meta

text \<open>What becomes of the handler's promise: a response was sent, or an exception escaped.\<close>

datatype outcome =
    Responded nat body
  | Uncaught js_error

definition is_digit :: "char \<Rightarrow> bool" where
  "is_digit c = (c \<in> set ''0123456789'')"

text \<open>\<open>/^[6-9]\d{9}$/.test(number)\<close>.\<close>

definition mobileRegex_test :: "string \<Rightarrow> bool" where
  "mobileRegex_test number =
     (case number of
        [] \<Rightarrow> False
      | c # cs \<Rightarrow> c \<in> set ''6789'' \<and> length cs = 9 \<and> list_all is_digit cs)"

definition validateMobileNumber :: "string \<Rightarrow> js_error + bool" where
  "validateMobileNumber number =
     (if \<not> mobileRegex_test number
      then Inl (Error ''Invalid mobile number. Must be 10 digits starting with 6-9.'')
      else Inr True)"

text \<open>The number of usage records of an address created within the last hour.\<close>

definition address_usage :: "db \<Rightarrow> time \<Rightarrow> string \<Rightarrow> nat" where
  "address_usage d t addr =
     length (filter (\<lambda>r. ip_address r = addr \<and> created_at r > t - hour_ms) (api_usage_logs d))"

text \<open>\<open>SELECT COUNT(*) ... WHERE ip_address = ip AND created_at > NOW() - INTERVAL '1 hour'\<close>:
  the query fails when the text \<open>ip\<close> is no address, and otherwise counts the records
  whose address is the one \<open>ip\<close> stands for.\<close>

definition ipUsage :: "db \<Rightarrow> time \<Rightarrow> string \<Rightarrow> js_error + nat" where
  "ipUsage d t ip =
     (case inet_in d ip of
        None \<Rightarrow> Inl (Error ''invalid input syntax for type inet'')
      | Some addr \<Rightarrow> Inr (address_usage d t addr))"

definition checkRateLimit :: "db \<Rightarrow> time \<Rightarrow> int \<Rightarrow> string \<Rightarrow> js_error + bool" where
  "checkRateLimit d t apiKeyId ip =
     (case ipUsage d t ip of
        Inl err \<Rightarrow> Inl err
      | Inr n \<Rightarrow>
          if n \<ge> 100
          then Inl (Error ''Rate limit exceeded. Too many requests from this IP.'')
          else (case find (\<lambda>k. ak_id k = apiKeyId) (api_keys d) of
                  None \<Rightarrow> Inl (TypeError ''Cannot read properties of undefined (reading daily_used)'')
                | Some keyInfo \<Rightarrow>
                    if daily_used keyInfo \<ge> daily_limit keyInfo
                    then Inl (Error ''Daily quota exceeded for this API key.'')
                    else Inr True))"

text \<open>The check on the upstream body inside the inner \<open>try\<close>: it gives the array
  \<open>baseResponse.data\<close> or throws.\<close>

definition validate_base_response :: "json \<Rightarrow> js_error + json list" where
  "validate_base_response baseResponse =
     (if \<not> truthy baseResponse then Inl (Error ''Invalid base API response format'')
      else if \<not> typeof_object baseResponse then Inl (Error ''Invalid base API response format'')
      else (case prop_of baseResponse ''data'' of
              None \<Rightarrow> Inl (Error ''Invalid base API response format'')
            | Some (JArr items) \<Rightarrow> Inr items
            | Some v \<Rightarrow> Inl (Error ''Invalid base API response format'')))"

text \<open>The outcome of the inner \<open>try\<close> block: the call and the check of its body.\<close>

definition base_api_call :: "env \<Rightarrow> string \<Rightarrow> js_error + json list" where
  "base_api_call e number =
     (case upstream e of
        UpstreamThrows msg \<Rightarrow> Inl (Error msg)
      | UpstreamData baseResponse \<Rightarrow> validate_base_response baseResponse)"

text \<open>The object literal built by the arrow function given to \<open>baseResponse.data.map\<close>,
  for an item other than \<open>null\<close>.\<close>

definition project_item :: "string \<Rightarrow> json \<Rightarrow> entry" where
  "project_item number item =
     \<lparr> name = or_default (prop_of item ''name'') (JStr ''N/A''),
       fname = or_default (prop_of item ''fname'') (JStr ''N/A''),
       mobile = or_default (prop_of item ''mobile'') (JStr number),
       alt = or_default (prop_of item ''alt'') (JStr ''N/A''),
       address = or_default (prop_of item ''address'') (JStr ''N/A''),
       circle = or_default (prop_of item ''circle'') (JStr ''N/A''),
       ident = or_default (prop_of item ''id'') (JStr ''N/A'') \<rparr>"

text \<open>The arrow function itself: reading \<open>item.name\<close> of a \<open>null\<close> item throws.\<close>

definition clean_item :: "string \<Rightarrow> json \<Rightarrow> js_error + entry" where
  "clean_item number item =
     (if item = JNull
      then Inl (TypeError ''Cannot read properties of null (reading name)'')
      else Inr (project_item number item))"

text \<open>\<open>baseResponse.data.map(...)\<close>: the items in order, stopping at the first throw.\<close>

fun clean_all :: "string \<Rightarrow> json list \<Rightarrow> js_error + entry list" where
  "clean_all number [] = Inr []"
| "clean_all number (item # items) =
     (case clean_item number item of
        Inl e \<Rightarrow> Inl e
      | Inr c \<Rightarrow> (case clean_all number items of Inl e \<Rightarrow> Inl e | Inr cs \<Rightarrow> Inr (c # cs)))"

text \<open>The status and message the \<open>catch\<close> block chooses from the error's message.\<close>

definition error_status :: "string \<Rightarrow> nat \<times> string" where
  "error_status msg =
     (if str_includes msg ''Invalid mobile number'' then (400, ''Invalid mobile number format'')
      else if str_includes msg ''Rate limit'' then (429, ''Rate limit exceeded'')
      else if str_includes msg ''quota'' then (429, ''Daily quota exceeded'')
      else if str_includes msg ''paused'' then (403, ''Service temporarily suspended'')
      else if str_includes msg ''expired'' then (401, ''Authentication failed'')
      else (400, ''Bad request''))"

text \<open>The \<open>catch\<close> block of the handler. \<open>apiKeyInfo\<close> and \<open>clientIp\<close> are declared with
  \<open>const\<close> inside the \<open>try\<close> block, so they are not in scope here: evaluating
  \<open>apiKeyInfo?.id\<close> throws a ReferenceError (optional chaining guards a \<open>null\<close> or
  \<open>undefined\<close> value, not an unresolvable name) before \<open>logUsage\<close> or
  \<open>res.status(statusCode)\<close> is reached, and the handler's promise rejects.\<close>

definition catch_block :: "js_error \<Rightarrow> db \<Rightarrow> outcome \<times> db" where
  "catch_block error d =
     (let (statusCode, errorMessage) = error_status (message error)
      in (Uncaught (ReferenceError ''apiKeyInfo is not defined''), d))"

text \<open>The \<open>try\<close> block after the parameters were extracted: \<open>Inr\<close> is a response returned
  from inside the block, \<open>Inl\<close> an exception thrown to the \<open>catch\<close> block.\<close>

definition try_block :: "env \<Rightarrow> request \<Rightarrow> string \<Rightarrow> string \<Rightarrow> db \<Rightarrow> (js_error + outcome) \<times> db" where
  "try_block e req key number d =
     (case validateMobileNumber number of
        Inl err \<Rightarrow> (Inl err, d)
      | Inr ok \<Rightarrow>
          let keyHash = sha256 e key in
          (case getApiKey d keyHash of
             None \<Rightarrow> (Inr (Responded 401 (ErrorBody ''Invalid or expired API key'')), d)
           | Some apiKeyInfo \<Rightarrow>
               if info_is_paused apiKeyInfo
               then (Inr (Responded 403 (ErrorBody ''API key is currently paused'')), d)
               else if (case info_expires_at apiKeyInfo of None \<Rightarrow> False | Some x \<Rightarrow> x < now e)
               then (Inr (Responded 401 (ErrorBody ''API key has expired'')), d)
               else
                 let clientIp = str_or (x_forwarded_for req) (str_or (remoteAddress req) ''unknown'') in
                 (case checkRateLimit d (now e) (id' apiKeyInfo) clientIp of
                    Inl err \<Rightarrow> (Inl err, d)
                  | Inr ok \<Rightarrow>
                      (case base_api_call e number of
                         Inl baseApiError \<Rightarrow>
                           (case logUsage (usage_write_ok e) (now e) d (id' apiKeyInfo) number
                                   (upstream_elapsed e) ''error'' clientIp (h_user_agent req) of
                              Inl err \<Rightarrow> (Inl err, d)
                            | Inr d1 \<Rightarrow>
                                (Inr (Responded 503
                                   (ErrorRetryBody ''Service temporarily unavailable. Please try again later.'' 60)),
                                 d1))
                       | Inr items \<Rightarrow>
                           (case clean_all number items of
                              Inl err \<Rightarrow> (Inl err, d)
                            | Inr cleanedData \<Rightarrow>
                                let d1 = incrementApiUsage d (today_of (now e)) (id' apiKeyInfo) in
                                (case logUsage (usage_write_ok e) (now e) d1 (id' apiKeyInfo) number
                                        (upstream_elapsed e) ''success'' clientIp (h_user_agent req) of
                                   Inl err \<Rightarrow> (Inl err, d1)
                                 | Inr d2 \<Rightarrow>
                                     (Inr (Responded 200
                                        (SuccessBody True cleanedData
                                           \<lparr> query = number, results = length cleanedData,
                                             processed_at = now e \<rparr>)),
                                      d2)))))))"

text \<open>The handler of \<open>GET /api/lookup\<close>: the response (or the escaped exception) and the
  store afterwards.\<close>

definition handler :: "env \<Rightarrow> request \<Rightarrow> db \<Rightarrow> outcome \<times> db" where
  "handler e req d =
     (if http_method req = ''OPTIONS'' then (Responded 200 NoBody, d)
      else if http_method req \<noteq> ''GET''
      then (Responded 405 (ErrorAllowedBody ''Method not allowed'' ''GET''), d)
      else if falsy_str (q_key req) \<or> falsy_str (q_number req)
      then (Responded 400 (ErrorRequiredBody ''Missing required parameters'' ''key and number''), d)
      else (case try_block e req (the (q_key req)) (the (q_number req)) d of
              (Inr out, d') \<Rightarrow> (out, d')
            | (Inl error, d') \<Rightarrow> catch_block error d'))"

section \<open>Session authority\<close>

text \<open>A signed token: the payload and the secret whose signature it carries. Signing and
  verifying are those of the \<open>jsonwebtoken\<close> library, kept symbolic: a token verifies
  under a secret when it was signed with that secret and its \<open>exp\<close> (in seconds) is
  still ahead of the clock.\<close>

record token_payload =
  userId :: int
  tok_username :: string
  iat :: int
  exp :: int

record jwt =
  payload :: token_payload
  signed_with :: string

definition generateToken :: "string \<Rightarrow> time \<Rightarrow> int \<Rightarrow> string \<Rightarrow> jwt" where
  "generateToken secret t uid uname =
     \<lparr> payload = \<lparr> userId = uid, tok_username = uname, iat = t div 1000,
                     exp = t div 1000 + (24 * 60 * 60) \<rparr>,
       signed_with = secret \<rparr>"

definition verifyToken :: "string \<Rightarrow> time \<Rightarrow> jwt \<Rightarrow> token_payload option" where
  "verifyToken secret t token =
     (if signed_with token = secret \<and> t div 1000 < exp (payload token)
      then Some (payload token)
      else None)"

text \<open>The key-value store: each key holds a text and the instant at which it expires.
  \<open>setex\<close> and \<open>expire\<close> set the time-to-live of a key to the given number of seconds from
  the moment of the call, replacing any earlier one. A stored text is the JSON text of a
  session object, which is what \<open>createSession\<close> writes (\<open>JSON.stringify\<close> of the object);
  or the JSON text of a string whose content is the JSON text of a session object; or any
  other text.\<close>

record session_data =
  s_token :: jwt
  s_userId :: int
  s_username :: string
  createdAt :: time

datatype kv_text =
    SessionJson session_data
  | QuotedSessionJson session_data
  | OtherText string

record kv_entry =
  kv_text :: kv_text
  kv_expires :: time

type_synonym kv_store = "string \<Rightarrow> kv_entry option"

text \<open>What \<open>kv.get\<close> hands back. The client parses the stored text as JSON before it
  returns it: for the text of a session object the caller gets the object itself, for the
  text of a string the caller gets that string.\<close>

datatype kv_reply =
    ReplyObject session_data
  | ReplyString kv_text
  | ReplyOther string

fun deserialize :: "kv_text \<Rightarrow> kv_reply" where
  "deserialize (SessionJson s) = ReplyObject s"
| "deserialize (QuotedSessionJson s) = ReplyString (SessionJson s)"
| "deserialize (OtherText x) = ReplyOther x"

definition kv_setex :: "time \<Rightarrow> kv_store \<Rightarrow> string \<Rightarrow> int \<Rightarrow> kv_text \<Rightarrow> kv_store" where
  "kv_setex t kv k seconds v = kv(k \<mapsto> \<lparr> kv_text = v, kv_expires = t + seconds * 1000 \<rparr>)"

definition kv_get :: "time \<Rightarrow> kv_store \<Rightarrow> string \<Rightarrow> kv_reply option" where
  "kv_get t kv k =
     (case kv k of
        None \<Rightarrow> None
      | Some en \<Rightarrow> if t < kv_expires en then Some (deserialize (kv_text en)) else None)"

definition kv_expire :: "time \<Rightarrow> kv_store \<Rightarrow> string \<Rightarrow> int \<Rightarrow> kv_store" where
  "kv_expire t kv k seconds =
     (case kv k of
        None \<Rightarrow> kv
      | Some en \<Rightarrow> if t < kv_expires en then kv(k \<mapsto> en\<lparr>kv_expires := t + seconds * 1000\<rparr>) else kv)"

text \<open>The remaining time-to-live of a key in seconds, as the store reports it.\<close>

definition kv_ttl :: "time \<Rightarrow> kv_store \<Rightarrow> string \<Rightarrow> int option" where
  "kv_ttl t kv k =
     (case kv k of
        None \<Rightarrow> None
      | Some en \<Rightarrow> if t < kv_expires en then Some ((kv_expires en - t) div 1000) else None)"

text \<open>\<open>JSON.parse(sessionData)\<close> in \<open>validateSession\<close>. \<open>JSON.parse\<close> turns its argument
  into a string first: an object becomes \<open>[object Object]\<close>, which is no JSON text, so the
  call throws; a string that holds the JSON text of a session object gives that object. Any
  other reply is taken to end in the \<open>catch\<close> block as well (the parse throws, or the
  reads and the verification that follow do).\<close>

fun JSON_parse :: "kv_reply \<Rightarrow> js_error + session_data" where
  "JSON_parse (ReplyObject s) = Inl (SyntaxError ''Unexpected token o in JSON at position 1'')"
| "JSON_parse (ReplyString (SessionJson s)) = Inr s"
| "JSON_parse v = Inl (SyntaxError ''Unexpected token in JSON'')"

text \<open>\<open>createSession\<close>; the random session id is given.\<close>

definition createSession ::
  "string \<Rightarrow> time \<Rightarrow> string \<Rightarrow> kv_store \<Rightarrow> int \<Rightarrow> string \<Rightarrow> (string \<times> jwt) \<times> kv_store" where
  "createSession secret t sessionId kv uid uname =
     (let token = generateToken secret t uid uname in
      ((sessionId, token),
       kv_setex t kv (''session:'' @ sessionId) 86400
         (SessionJson \<lparr> s_token = token, s_userId = uid, s_username = uname, createdAt = t \<rparr>)))"

text \<open>\<open>validateSession\<close>: every exception inside its \<open>try\<close> block ends in \<open>return null\<close>.\<close>

definition validateSession ::
  "string \<Rightarrow> time \<Rightarrow> kv_store \<Rightarrow> string option \<Rightarrow> token_payload option \<times> kv_store" where
  "validateSession secret t kv sessionId =
     (if falsy_str sessionId then (None, kv)
      else (case kv_get t kv (''session:'' @ the sessionId) of
              None \<Rightarrow> (None, kv)
            | Some sessionData \<Rightarrow>
                (case JSON_parse sessionData of
                   Inl err \<Rightarrow> (None, kv)
                 | Inr session \<Rightarrow>
                     (case verifyToken secret t (s_token session) of
                        None \<Rightarrow> (None, kv)
                      | Some decoded \<Rightarrow>
                          if userId decoded = s_userId session
                          then (Some decoded, kv_expire t kv (''session:'' @ the sessionId) 1800)
                          else (None, kv)))))"

section \<open>Revoking a key\<close>

text \<open>The request of \<open>DELETE /api/admin/revoke-key\<close>: the method, the session cookie and
  the \<open>key_id\<close> of the body, taken to be an integer when present (\<open>parseInt\<close> of an
  integer is that integer).\<close>

record revoke_request =
  rv_method :: string
  admin_session :: "string option"
  body_key_id :: "int option"

datatype revoke_body =
    RevokeError string
  | RevokeSuccess bool string int string time

text \<open>The single \<open>UPDATE api_keys SET expires_at = NOW() - INTERVAL '1 day', is_paused = true
  WHERE id = ... RETURNING ...\<close>: the store afterwards and the rows returned.\<close>

definition revoke_update :: "time \<Rightarrow> int \<Rightarrow> db \<Rightarrow> db \<times> api_key_row list" where
  "revoke_update t kid d =
     (let rows = map (\<lambda>k. if ak_id k = kid
                             then k\<lparr>expires_at := Some (t - day_ms), is_paused := True\<rparr>
                             else k) (api_keys d)
      in (d\<lparr>api_keys := rows\<rparr>, filter (\<lambda>k. ak_id k = kid) rows))"

definition revoke_key_handler ::
  "string \<Rightarrow> time \<Rightarrow> revoke_request \<Rightarrow> db \<Rightarrow> kv_store \<Rightarrow> (nat \<times> revoke_body) \<times> db \<times> kv_store" where
  "revoke_key_handler secret t req d kv =
     (if rv_method req \<noteq> ''DELETE'' then ((405, RevokeError ''Method not allowed''), d, kv)
      else (case validateSession secret t kv (admin_session req) of
              (None, kv') \<Rightarrow> ((401, RevokeError ''Unauthorized''), d, kv')
            | (Some session, kv') \<Rightarrow>
                (case body_key_id req of
                   None \<Rightarrow> ((400, RevokeError ''Key ID required''), d, kv')
                 | Some key_id \<Rightarrow>
                     if key_id = 0 then ((400, RevokeError ''Key ID required''), d, kv')
                     else (case revoke_update t key_id d of
                             (d', []) \<Rightarrow> ((404, RevokeError ''API key not found''), d', kv')
                           | (d', row # rest) \<Rightarrow>
                               ((200, RevokeSuccess True ''API key revoked successfully''
                                        (ak_id row) (take 8 (api_key row) @ ''...'') t),
                                d', kv')))))"

text \<open>A key is revoked at an instant when it is paused and its expiry lies before it.\<close>

definition revoked :: "time \<Rightarrow> api_key_row \<Rightarrow> bool" where
  "revoked t k = (is_paused k \<and> (case expires_at k of None \<Rightarrow> False | Some x \<Rightarrow> x < t))"

section \<open>Notions of the specification\<close>

text \<open>The fixed calendar-hour bucket of an instant, and the number of usage records of an
  address in the bucket of an instant: the count of a limiter whose counts reset at hour
  boundaries.\<close>

definition hour_bucket :: "time \<Rightarrow> int" where
  "hour_bucket t = t div hour_ms"

definition bucketUsage :: "db \<Rightarrow> time \<Rightarrow> string \<Rightarrow> nat" where
  "bucketUsage d t addr =
     length (filter (\<lambda>r. ip_address r = addr \<and> hour_bucket (created_at r) = hour_bucket t)
               (api_usage_logs d))"

text \<open>The upstream call fails: a timeout or a status outside 2xx (the client throws), or a
  body that is not an object containing an array field \<open>data\<close>.\<close>

fun has_data_array :: "json \<Rightarrow> bool" where
  "has_data_array (JObj kvs) = (case map_of kvs ''data'' of Some (JArr items) \<Rightarrow> True | _ \<Rightarrow> False)"
| "has_data_array v = False"

fun upstream_failed :: "upstream_result \<Rightarrow> bool" where
  "upstream_failed (UpstreamThrows msg) = True"
| "upstream_failed (UpstreamData b) = (\<not> has_data_array b)"

text \<open>The expiry test of the handler: \<open>expires_at && new Date(expires_at) < new Date()\<close>.\<close>

definition key_expired :: "time \<Rightarrow> api_key_info \<Rightarrow> bool" where
  "key_expired t info = (case info_expires_at info of None \<Rightarrow> False | Some x \<Rightarrow> x < t)"

text \<open>The text the handler takes for the client's address.\<close>

definition clientIp_of :: "request \<Rightarrow> string" where
  "clientIp_of req = str_or (x_forwarded_for req) (str_or (remoteAddress req) ''unknown'')"

text \<open>The usage record the handler writes for a request (it writes one only when the
  client's text is an address).\<close>

definition usage_record :: "db \<Rightarrow> env \<Rightarrow> request \<Rightarrow> int \<Rightarrow> string \<Rightarrow> string \<Rightarrow> usage_log_row" where
  "usage_record d e req kid number st =
     \<lparr> api_key_id = kid, mobile_number = number, response_time = upstream_elapsed e,
       status = st,
       ip_address = (case inet_in d (clientIp_of req) of None \<Rightarrow> [] | Some addr \<Rightarrow> addr),
       user_agent = h_user_agent req, created_at = now e \<rparr>"

text \<open>Changing the \<open>is_active\<close> flags of the users and nothing else.\<close>

definition set_is_active :: "(user_row \<Rightarrow> bool) \<Rightarrow> db \<Rightarrow> db" where
  "set_is_active f d = d\<lparr>users := map (\<lambda>u. u\<lparr>is_active := f u\<rparr>) (users d)\<rparr>"

section \<open>Example data\<close>

definition ex_key :: api_key_row where
  "ex_key = \<lparr> ak_id = 1, key_hash = ''h:secret'', api_key = ''secret'', user_id = Some 7,
              expires_at = None, is_paused = False, daily_limit = 10, daily_used = 3,
              last_reset_date = Some 100 \<rparr>"

definition ex_user :: user_row where
  "ex_user = \<lparr> u_id = 7, username = ''admin'', is_active = True \<rparr>"

text \<open>The input function of \<open>INET\<close> on the texts of the examples: \<open>1.2.3.4\<close> and
  \<open>1.2.3.4/32\<close> stand for the same address, written \<open>1.2.3.4\<close>; the examples use no other
  address, and a text such as \<open>unknown\<close> is none.\<close>

definition ex_inet :: "string \<Rightarrow> string option" where
  "ex_inet txt = (if txt = ''1.2.3.4'' \<or> txt = ''1.2.3.4/32'' then Some ''1.2.3.4'' else None)"

definition ex_db :: db where
  "ex_db = \<lparr> api_keys = [ex_key], users = [ex_user], api_usage_logs = [], inet_in = ex_inet \<rparr>"

text \<open>An environment on day 101, five milliseconds after midnight; the fingerprint function
  of the examples prefixes its argument.\<close>

definition ex_env :: env where
  "ex_env = \<lparr> now = 8726400005, sha256 = (\<lambda>s. ''h:'' @ s), BASE_API_URL = ''https://upstream.example'',
              BASE_API_KEY = ''upstream-credential'',
              upstream = UpstreamData (JObj [(''data'', JArr [JObj [(''name'', JStr ''A''), (''id'', JNum 0)]])]),
              upstream_elapsed = 120, usage_write_ok = True \<rparr>"

definition ex_req :: request where
  "ex_req = \<lparr> http_method = ''GET'', q_key = Some ''secret'', q_number = Some ''9876543210'',
              x_forwarded_for = Some ''1.2.3.4'', remoteAddress = None, h_user_agent = Some ''curl'' \<rparr>"

definition ex_record :: usage_log_row where
  "ex_record = \<lparr> api_key_id = 1, mobile_number = ''9876543210'', response_time = 120,
                 status = ''success'', ip_address = ''1.2.3.4'', user_agent = Some ''curl'',
                 created_at = 3599000 \<rparr>"

text \<open>The store after a session was issued at second 1000 for user 7; a revocation request
  that carries the session's id; and a store that holds, under the same key and with the
  same expiry, the JSON text of a string whose content is that session's text.\<close>

definition ex_kv :: kv_store where
  "ex_kv = snd (createSession ''jwt-secret'' 1000000 ''abc'' Map.empty 7 ''admin'')"

definition ex_revoke_req :: revoke_request where
  "ex_revoke_req = \<lparr> rv_method = ''DELETE'', admin_session = Some ''abc'', body_key_id = Some 1 \<rparr>"

definition ex_kv_quoted :: kv_store where
  "ex_kv_quoted =
     Map.empty(''session:abc'' \<mapsto>
       \<lparr> kv_text = QuotedSessionJson
                     \<lparr> s_token = generateToken ''jwt-secret'' 1000000 7 ''admin'', s_userId = 7,
                       s_username = ''admin'', createdAt = 1000000 \<rparr>,
         kv_expires = 1000000 + 86400 * 1000 \<rparr>)"

section \<open>The shape of a run of the lookup handler\<close>

lemma catch_block_throws:
  "catch_block err d = (Uncaught (ReferenceError ''apiKeyInfo is not defined''), d)"
  by (simp add: catch_block_def split: prod.splits)

lemma mobileRegex_nonempty: "mobileRegex_test number \<Longrightarrow> number \<noteq> []"
  by (auto simp: mobileRegex_test_def)

lemma handler_get:
  assumes "http_method req = ''GET''" "q_key req = Some key" "key \<noteq> []"
    and "q_number req = Some number" "number \<noteq> []"
  shows "handler e req d =
    (case try_block e req key number d of
       (Inr out, d') \<Rightarrow> (out, d')
     | (Inl err, d') \<Rightarrow> (Uncaught (ReferenceError ''apiKeyInfo is not defined''), d'))"
  using assms by (simp add: handler_def falsy_str_def catch_block_throws split: prod.splits sum.splits)

lemma checkRateLimit_no_address:
  "inet_in d ip = None \<Longrightarrow>
     checkRateLimit d t kid ip = Inl (Error ''invalid input syntax for type inet'')"
  by (simp add: checkRateLimit_def ipUsage_def)

lemma checkRateLimit_address:
  "checkRateLimit d t kid ip = Inr ok \<Longrightarrow> \<exists>addr. inet_in d ip = Some addr"
  by (cases "inet_in d ip") (simp_all add: checkRateLimit_no_address)

lemma incrementApiUsage_inet:
  "inet_in (incrementApiUsage d today kid) = inet_in d"
  by (simp add: incrementApiUsage_def Let_def)

lemma try_block_resolved:
  assumes "mobileRegex_test number" "getApiKey d (sha256 e key) = Some info"
  shows "try_block e req key number d =
    (if info_is_paused info
     then (Inr (Responded 403 (ErrorBody ''API key is currently paused'')), d)
     else if key_expired (now e) info
     then (Inr (Responded 401 (ErrorBody ''API key has expired'')), d)
     else (case checkRateLimit d (now e) (id' info) (clientIp_of req) of
             Inl err \<Rightarrow> (Inl err, d)
           | Inr ok \<Rightarrow>
              (case base_api_call e number of
                 Inl baseApiError \<Rightarrow>
                   (if usage_write_ok e
                    then (Inr (Responded 503 (ErrorRetryBody ''Service temporarily unavailable. Please try again later.'' 60)),
                          d\<lparr>api_usage_logs := api_usage_logs d @ [usage_record d e req (id' info) number ''error'']\<rparr>)
                    else (Inl (Error ''usage insert failed''), d))
               | Inr items \<Rightarrow>
                   (case clean_all number items of
                      Inl err \<Rightarrow> (Inl err, d)
                    | Inr cleanedData \<Rightarrow>
                        (if usage_write_ok e
                         then (Inr (Responded 200 (SuccessBody True cleanedData
                                  \<lparr> query = number, results = length cleanedData, processed_at = now e \<rparr>)),
                               (incrementApiUsage d (today_of (now e)) (id' info))
                                 \<lparr>api_usage_logs := api_usage_logs (incrementApiUsage d (today_of (now e)) (id' info))
                                     @ [usage_record d e req (id' info) number ''success'']\<rparr>)
                         else (Inl (Error ''usage insert failed''), incrementApiUsage d (today_of (now e)) (id' info)))))))"
proof (cases "inet_in d (clientIp_of req)")
  case None
  then have "checkRateLimit d (now e) (id' info) (clientIp_of req)
      = Inl (Error ''invalid input syntax for type inet'')"
    by (rule checkRateLimit_no_address)
  then show ?thesis
    using assms
    by (simp add: try_block_def validateMobileNumber_def clientIp_of_def key_expired_def Let_def)
next
  case (Some addr)
  have log: "logUsage w t x kid n rt st (clientIp_of req) ua =
      (if w then Inr (x\<lparr>api_usage_logs := api_usage_logs x @
                 [\<lparr> api_key_id = kid, mobile_number = n, response_time = rt, status = st,
                    ip_address = addr, user_agent = ua, created_at = t \<rparr>]\<rparr>)
       else Inl (Error ''usage insert failed''))"
    if "inet_in x = inet_in d" for w t x kid n rt st ua
    using Some that by (simp add: logUsage_def)
  have rec: "usage_record d e req kid number st =
      \<lparr> api_key_id = kid, mobile_number = number, response_time = upstream_elapsed e, status = st,
        ip_address = addr, user_agent = h_user_agent req, created_at = now e \<rparr>" for kid st
    using Some by (simp add: usage_record_def)
  show ?thesis
    using assms
    by (simp add: try_block_def validateMobileNumber_def key_expired_def Let_def rec
          log [unfolded clientIp_of_def] clientIp_of_def incrementApiUsage_inet
        split: sum.splits)
qed

lemma base_api_call_failed:
  "upstream_failed (upstream e) \<Longrightarrow> \<exists>err. base_api_call e number = Inl err"
proof (cases "upstream e")
  case (UpstreamThrows msg)
  then show ?thesis by (simp add: base_api_call_def)
next
  case (UpstreamData b)
  assume "upstream_failed (upstream e)"
  with UpstreamData have nb: "\<not> has_data_array b" by simp
  then have "\<exists>err. validate_base_response b = Inl err"
    by (cases b) (auto simp: validate_base_response_def split: option.splits json.splits)
  with UpstreamData show ?thesis by (simp add: base_api_call_def)
qed

lemma base_api_call_passes:
  "\<not> upstream_failed (upstream e) \<Longrightarrow> \<exists>items. base_api_call e number = Inr items"
proof (cases "upstream e")
  case (UpstreamThrows msg)
  assume "\<not> upstream_failed (upstream e)"
  with UpstreamThrows show ?thesis by simp
next
  case (UpstreamData b)
  assume "\<not> upstream_failed (upstream e)"
  with UpstreamData have "has_data_array b" by simp
  then have "\<exists>items. validate_base_response b = Inr items"
    by (cases b) (auto simp: validate_base_response_def split: option.splits json.splits)
  with UpstreamData show ?thesis by (simp add: base_api_call_def)
qed

lemma base_api_call_data:
  "upstream e = UpstreamData (JObj kvs) \<Longrightarrow> map_of kvs ''data'' = Some (JArr items) \<Longrightarrow>
     base_api_call e number = Inr items"
  by (simp add: base_api_call_def validate_base_response_def)

lemma clean_all_non_null:
  "JNull \<notin> set items \<Longrightarrow> clean_all number items = Inr (map (project_item number) items)"
  by (induction items) (auto simp: clean_item_def)

lemma clean_all_null:
  "JNull \<in> set items \<Longrightarrow> \<exists>err. clean_all number items = Inl err"
  by (induction items) (auto simp: clean_item_def split: sum.splits)

lemma incrementApiUsage_logs:
  "api_usage_logs (incrementApiUsage d today kid) = api_usage_logs d"
  by (simp add: incrementApiUsage_def Let_def)

lemma handler_admitted:
  assumes "http_method req = ''GET''" and "q_key req = Some key" and "key \<noteq> []"
    and "q_number req = Some number" and "mobileRegex_test number"
    and "getApiKey d (sha256 e key) = Some info"
    and "\<not> info_is_paused info" and "\<not> key_expired (now e) info"
    and "checkRateLimit d (now e) (id' info) (clientIp_of req) = Inr ok"
  shows "handler e req d =
    (case base_api_call e number of
       Inl baseApiError \<Rightarrow>
         (if usage_write_ok e
          then (Responded 503 (ErrorRetryBody ''Service temporarily unavailable. Please try again later.'' 60),
                d\<lparr>api_usage_logs := api_usage_logs d @ [usage_record d e req (id' info) number ''error'']\<rparr>)
          else (Uncaught (ReferenceError ''apiKeyInfo is not defined''), d))
     | Inr items \<Rightarrow>
         (case clean_all number items of
            Inl err \<Rightarrow> (Uncaught (ReferenceError ''apiKeyInfo is not defined''), d)
          | Inr cleanedData \<Rightarrow>
              (if usage_write_ok e
               then (Responded 200 (SuccessBody True cleanedData
                        \<lparr> query = number, results = length cleanedData, processed_at = now e \<rparr>),
                     (incrementApiUsage d (today_of (now e)) (id' info))
                       \<lparr>api_usage_logs := api_usage_logs d @ [usage_record d e req (id' info) number ''success'']\<rparr>)
               else (Uncaught (ReferenceError ''apiKeyInfo is not defined''),
                     incrementApiUsage d (today_of (now e)) (id' info)))))"
proof -
  have ne: "number \<noteq> []" using assms(5) by (rule mobileRegex_nonempty)
  show ?thesis
    using assms(7-9)
    by (simp add: handler_get [OF assms(1-4) ne] try_block_resolved [OF assms(5,6)]
          incrementApiUsage_logs split: sum.splits)
qed

lemma handler_rejected_by_limits:
  assumes "http_method req = ''GET''" and "q_key req = Some key" and "key \<noteq> []"
    and "q_number req = Some number" and "mobileRegex_test number"
    and "getApiKey d (sha256 e key) = Some info"
    and "\<not> info_is_paused info" and "\<not> key_expired (now e) info"
    and "checkRateLimit d (now e) (id' info) (clientIp_of req) = Inl err"
  shows "handler e req d = (Uncaught (ReferenceError ''apiKeyInfo is not defined''), d)"
proof -
  have ne: "number \<noteq> []" using assms(5) by (rule mobileRegex_nonempty)
  show ?thesis
    using assms(7-9)
    by (simp add: handler_get [OF assms(1-4) ne] try_block_resolved [OF assms(5,6)])
qed

lemma getApiKey_logs: "getApiKey (d\<lparr>api_usage_logs := l\<rparr>) h = getApiKey d h"
  by (simp add: getApiKey_def)

lemma mobileRegex_test_iff:
  "mobileRegex_test number =
     (length number = 10 \<and> hd number \<in> set ''6789'' \<and> list_all is_digit number)"
  by (cases number) (auto simp: mobileRegex_test_def is_digit_def)

lemma handler_invalid_number:
  assumes "http_method req = ''GET''" and "q_key req = Some key" and "key \<noteq> []"
    and "q_number req = Some number" and "number \<noteq> []" and "\<not> mobileRegex_test number"
  shows "handler e req d = (Uncaught (ReferenceError ''apiKeyInfo is not defined''), d)"
  using assms(6)
  by (simp add: handler_get [OF assms(1-5)] try_block_def validateMobileNumber_def)

lemma strict_equal_date_object: "\<not> strict_equal (DateObject x) (DateString y)"
  by simp

lemma incrementApiUsage_resets:
  "api_keys (incrementApiUsage d today kid) =
     map (\<lambda>k. if ak_id k = kid then k\<lparr>daily_used := 1, last_reset_date := Some today\<rparr> else k)
         (api_keys d)"
  by (simp add: incrementApiUsage_def Let_def split: option.splits)

lemma address_usage_keys:
  "address_usage (d\<lparr>api_usage_logs := map (api_key_id_update f) (api_usage_logs d)\<rparr>) t addr
     = address_usage d t addr"
  by (simp add: address_usage_def filter_map o_def)

lemma ipUsage_keys:
  "ipUsage (d\<lparr>api_usage_logs := map (api_key_id_update f) (api_usage_logs d)\<rparr>) t ip = ipUsage d t ip"
  by (simp add: ipUsage_def address_usage_keys split: option.splits)

section \<open>Independence of the lookup from the activity flag\<close>

lemma getApiKey_set_is_active: "getApiKey (set_is_active f d) h = getApiKey d h"
proof -
  have sel: "filter (\<lambda>u. user_id ak = Some (u_id u)) (map (\<lambda>u. u\<lparr>is_active := f u\<rparr>) us)
      = map (\<lambda>u. u\<lparr>is_active := f u\<rparr>) (filter (\<lambda>u. user_id ak = Some (u_id u)) us)" for ak us
    by (simp add: filter_map o_def)
  have col: "map (select_info ak) (map (\<lambda>u. u\<lparr>is_active := f u\<rparr>) us) = map (select_info ak) us" for ak us
    by (simp add: select_info_def)
  have sel_db: "users (set_is_active f d) = map (\<lambda>u. u\<lparr>is_active := f u\<rparr>) (users d)"
    "api_keys (set_is_active f d) = api_keys d"
    by (simp_all add: set_is_active_def)
  show ?thesis
    unfolding getApiKey_def by (simp only: sel_db sel col)
qed

lemma checkRateLimit_set_is_active:
  "checkRateLimit (set_is_active f d) t kid ip = checkRateLimit d t kid ip"
  by (simp add: checkRateLimit_def ipUsage_def address_usage_def set_is_active_def
      split: option.splits)

lemma incrementApiUsage_set_is_active:
  "incrementApiUsage (set_is_active f d) today kid = set_is_active f (incrementApiUsage d today kid)"
  by (simp add: incrementApiUsage_def set_is_active_def Let_def)

lemma logUsage_set_is_active:
  "logUsage w t (set_is_active f d) kid n rt st ip ua =
     (case logUsage w t d kid n rt st ip ua of Inl err \<Rightarrow> Inl err | Inr d' \<Rightarrow> Inr (set_is_active f d'))"
  by (simp add: logUsage_def set_is_active_def split: option.splits)

lemma try_block_set_is_active:
  "try_block e req key number (set_is_active f d) =
     (fst (try_block e req key number d), set_is_active f (snd (try_block e req key number d)))"
  by (simp add: try_block_def getApiKey_set_is_active checkRateLimit_set_is_active
        incrementApiUsage_set_is_active logUsage_set_is_active Let_def
      split: sum.splits option.splits)

lemma handler_set_is_active:
  "handler e req (set_is_active f d) = (fst (handler e req d), set_is_active f (snd (handler e req d)))"
  by (simp add: handler_def try_block_set_is_active catch_block_throws split: prod.splits sum.splits)

lemma filter_distinct_key:
  "distinct (map g xs) \<Longrightarrow> x \<in> set xs \<Longrightarrow> filter (\<lambda>y. g y = g x) xs = [x]"
proof (induction xs)
  case Nil
  then show ?case by simp
next
  case (Cons a xs)
  show ?case
  proof (cases "a = x")
    case True
    from Cons.prems(1) have "g a \<notin> g ` set xs" by simp
    then have "\<forall>y \<in> set xs. g y \<noteq> g a" by (metis imageI)
    with True have "filter (\<lambda>y. g y = g x) xs = []" by (simp add: filter_empty_conv)
    with True show ?thesis by simp
  next
    case False
    with Cons.prems have "x \<in> set xs" and "g a \<noteq> g x" and "distinct (map g xs)"
      by (auto simp: image_iff)
    with Cons.IH show ?thesis by simp
  qed
qed

lemma getApiKey_owner:
  assumes "k \<in> set (api_keys d)" and "u \<in> set (users d)" and "user_id k = Some (u_id u)"
    and "distinct (map key_hash (api_keys d))" and "distinct (map u_id (users d))"
  shows "getApiKey d (key_hash k) = Some (select_info k u)"
proof -
  have ks: "filter (\<lambda>ak. key_hash ak = key_hash k) (api_keys d) = [k]"
    using assms(4,1) by (rule filter_distinct_key)
  have "filter (\<lambda>u'. u_id u' = u_id u) (users d) = [u]"
    using assms(5,2) by (rule filter_distinct_key)
  then have us: "filter (\<lambda>u'. user_id k = Some (u_id u')) (users d) = [u]"
    by (simp add: assms(3) eq_commute)
  show ?thesis
    by (simp add: getApiKey_def ks us)
qed

section \<open>The revoking update and the session store\<close>







lemma revoke_handler_store:
  assumes "rv_method req = ''DELETE''"
    and "validateSession secret t kv (admin_session req) = (Some session, kv')"
    and "body_key_id req = Some kid" and "kid \<noteq> 0"
  shows "fst (snd (revoke_key_handler secret t req d kv)) = fst (revoke_update t kid d)"
  using assms
  by (simp add: revoke_key_handler_def split: prod.splits list.splits)


lemma JSON_parse_session:
  "(JSON_parse r = Inr session) = (r = ReplyString (SessionJson session))"
  by (cases r rule: JSON_parse.cases) auto

lemma validateSession_success:
  "(fst (validateSession secret t kv sessionId) = Some decoded) =
     (\<exists>sid session. sessionId = Some sid \<and> sid \<noteq> []
        \<and> kv_get t kv (''session:'' @ sid) = Some (ReplyString (SessionJson session))
        \<and> verifyToken secret t (s_token session) = Some decoded
        \<and> userId decoded = s_userId session)"
  by (cases sessionId)
     (auto simp: validateSession_def falsy_str_def JSON_parse_session
        split: option.splits sum.splits)

lemma validateSession_failure:
  "fst (validateSession secret t kv sessionId) = None \<Longrightarrow>
     snd (validateSession secret t kv sessionId) = kv"
  by (auto simp: validateSession_def split: option.splits sum.splits if_splits)

lemma validateSession_renews:
  assumes "fst (validateSession secret t kv (Some sid)) = Some decoded"
  shows "\<exists>en. kv (''session:'' @ sid) = Some en \<and> t < kv_expires en
           \<and> snd (validateSession secret t kv (Some sid))
               = kv(''session:'' @ sid \<mapsto> en\<lparr>kv_expires := t + 1800000\<rparr>)"
  using assms
  by (auto simp: validateSession_def falsy_str_def kv_get_def kv_expire_def
        split: option.splits sum.splits if_splits)

lemma validateSession_object:
  assumes "kv_get t kv (''session:'' @ sid) = Some (ReplyObject session)"
  shows "validateSession secret t kv (Some sid) = (None, kv)"
  using assms by (simp add: validateSession_def)

lemma validateSession_issued:
  "validateSession secret t' (snd (createSession secret t sid kv uid uname)) (Some sid)
     = (None, snd (createSession secret t sid kv uid uname))"
proof (cases "kv_get t' (snd (createSession secret t sid kv uid uname)) (''session:'' @ sid)")
  case None
  then show ?thesis by (simp add: validateSession_def)
next
  case (Some r)
  then have "r = ReplyObject \<lparr> s_token = generateToken secret t uid uname, s_userId = uid,
                              s_username = uname, createdAt = t \<rparr>"
    by (simp add: kv_get_def createSession_def kv_setex_def Let_def split: if_splits)
  with Some show ?thesis by (simp add: validateSession_object)
qed

section \<open>Evaluation on the example data\<close>

lemma ex_getApiKey:
  "getApiKey (ex_db\<lparr>api_keys := [k]\<rparr>) h =
     (if key_hash k = h \<and> user_id k = Some 7 then Some (select_info k ex_user) else None)"
  by (simp add: getApiKey_def ex_db_def ex_user_def)

lemma ex_regex: "mobileRegex_test ''9876543210''"
  by (simp add: mobileRegex_test_def is_digit_def)

lemma ex_request_facts:
  "http_method ex_req = ''GET''" "q_key ex_req = Some ''secret''" "''secret'' \<noteq> []"
  "q_number ex_req = Some ''9876543210''"
  by (simp_all add: ex_req_def)

lemma ex_clientIp: "clientIp_of ex_req = ''1.2.3.4''"
  by (simp add: clientIp_of_def ex_req_def str_or_def)

lemma ex_resolved:
  "getApiKey ex_db (sha256 (ex_env\<lparr>upstream := u, usage_write_ok := w\<rparr>) ''secret'')
     = Some (select_info ex_key ex_user)"
  by (simp add: getApiKey_def ex_db_def ex_key_def ex_user_def ex_env_def)

lemma ex_env_fields:
  "now (ex_env\<lparr>upstream := u, usage_write_ok := w\<rparr>) = 8726400005"
  "upstream_elapsed (ex_env\<lparr>upstream := u, usage_write_ok := w\<rparr>) = 120"
  by (simp_all add: ex_env_def)

lemma ex_user_agent: "h_user_agent ex_req = Some ''curl''"
  by (simp add: ex_req_def)

lemma ex_not_paused: "\<not> info_is_paused (select_info ex_key ex_user)"
  by (simp add: select_info_def ex_key_def)

lemma ex_not_expired: "\<not> key_expired t (select_info ex_key ex_user)"
  by (simp add: key_expired_def select_info_def ex_key_def)

lemma ex_address: "inet_in ex_db (clientIp_of ex_req) = Some ''1.2.3.4''"
  by (simp add: ex_clientIp ex_db_def ex_inet_def)

lemma ex_within_limits:
  "checkRateLimit ex_db t (id' (select_info ex_key ex_user)) (clientIp_of ex_req) = Inr True"
  by (simp add: checkRateLimit_def ipUsage_def address_usage_def ex_address)
     (simp add: ex_db_def ex_key_def select_info_def)

lemma ex_usage_record:
  "usage_record ex_db (ex_env\<lparr>upstream := u, usage_write_ok := w\<rparr>) ex_req 1 ''9876543210'' st
     = \<lparr> api_key_id = 1, mobile_number = ''9876543210'', response_time = 120, status = st,
         ip_address = ''1.2.3.4'', user_agent = Some ''curl'', created_at = 8726400005 \<rparr>"
  by (simp add: usage_record_def ex_address ex_env_fields ex_user_agent)

lemma ex_token_verifies:
  "verifyToken ''jwt-secret'' 1060000 (generateToken ''jwt-secret'' 1000000 7 ''admin'')
     = Some \<lparr> userId = 7, tok_username = ''admin'', iat = 1000, exp = 87400 \<rparr>"
  by (simp add: verifyToken_def generateToken_def)

lemma ex_kv_entry:
  "ex_kv ''session:abc'' =
     Some \<lparr> kv_text = SessionJson \<lparr> s_token = generateToken ''jwt-secret'' 1000000 7 ''admin'',
                                      s_userId = 7, s_username = ''admin'', createdAt = 1000000 \<rparr>,
            kv_expires = 87400000 \<rparr>"
  by (simp add: ex_kv_def createSession_def kv_setex_def Let_def)

text \<open>The revoke endpoint, called with the id of the issued session, answers 401 and changes
  nothing.\<close>

lemma ex_revoke_unauthorised:
  "revoke_key_handler ''jwt-secret'' 1060000 ex_revoke_req ex_db ex_kv
     = ((401, RevokeError ''Unauthorized''), ex_db, ex_kv)"
proof -
  have "validateSession ''jwt-secret'' 1060000 ex_kv (Some ''abc'') = (None, ex_kv)"
    unfolding ex_kv_def by (rule validateSession_issued)
  then show ?thesis
    by (simp add: revoke_key_handler_def ex_revoke_req_def)
qed

text \<open>Where a validation does succeed (on a text stored as a JSON string), \<open>expire\<close> replaces
  the time-to-live that remains, here 86340 seconds, by 1800 seconds.\<close>

lemma renewal_replaces_ttl:
  "kv_ttl 1060000 ex_kv_quoted ''session:abc'' = Some 86340
   \<and> fst (validateSession ''jwt-secret'' 1060000 ex_kv_quoted (Some ''abc''))
       = Some \<lparr> userId = 7, tok_username = ''admin'', iat = 1000, exp = 87400 \<rparr>
   \<and> kv_ttl 1060000 (snd (validateSession ''jwt-secret'' 1060000 ex_kv_quoted (Some ''abc'')))
         ''session:abc'' = Some 1800"
  by (simp add: ex_kv_quoted_def validateSession_def kv_get_def kv_expire_def kv_ttl_def
        falsy_str_def ex_token_verifies)

section \<open>Properties of the lookup endpoint\<close>

subsection \<open>Order of the admission checks\<close>

text \<open>C2. On a well-formed lookup request whose key resolves, the paused flag is tested first
  and the expiry second, both before the rate and quota checks: a paused key is answered
  with status 403 whatever its budget, its expiry and the usage records are, and a key that
  is not paused and whose expiry lies before the clock is answered with status 401 whatever
  its budget is. Neither answer changes the store.\<close>
theorem paused_before_expired_before_quota:
  assumes "http_method req = ''GET''" and "q_key req = Some key" and "key \<noteq> []"
    and "q_number req = Some number" and "mobileRegex_test number"
    and "getApiKey d (sha256 e key) = Some info"
  shows "(info_is_paused info \<longrightarrow>
            handler e req d = (Responded 403 (ErrorBody ''API key is currently paused''), d))
       \<and> (\<not> info_is_paused info \<and> info_expires_at info = Some x \<and> x < now e \<longrightarrow>
            handler e req d = (Responded 401 (ErrorBody ''API key has expired''), d))"
proof -
  have ne: "number \<noteq> []" using assms(5) by (rule mobileRegex_nonempty)
  show ?thesis
    by (simp add: handler_get [OF assms(1-4) ne] try_block_resolved [OF assms(5,6)] key_expired_def)
qed

theorem paused_before_expired_before_quota_witness:
  "handler ex_env ex_req (ex_db\<lparr>api_keys := [ex_key\<lparr>is_paused := True, expires_at := Some 5\<rparr>]\<rparr>)
     = (Responded 403 (ErrorBody ''API key is currently paused''),
        ex_db\<lparr>api_keys := [ex_key\<lparr>is_paused := True, expires_at := Some 5\<rparr>]\<rparr>)
   \<and> handler ex_env ex_req (ex_db\<lparr>api_keys := [ex_key\<lparr>expires_at := Some 5\<rparr>]\<rparr>)
     = (Responded 401 (ErrorBody ''API key has expired''),
        ex_db\<lparr>api_keys := [ex_key\<lparr>expires_at := Some 5\<rparr>]\<rparr>)"
proof -
  have m: "http_method ex_req = ''GET''" and k: "q_key ex_req = Some ''secret''" and kn: "''secret'' \<noteq> []"
    and n: "q_number ex_req = Some ''9876543210''"
    by (simp_all add: ex_req_def)
  have g1: "getApiKey (ex_db\<lparr>api_keys := [ex_key\<lparr>is_paused := True, expires_at := Some 5\<rparr>]\<rparr>) (sha256 ex_env ''secret'')
      = Some (select_info (ex_key\<lparr>is_paused := True, expires_at := Some 5\<rparr>) ex_user)"
    by (simp add: ex_getApiKey ex_key_def ex_env_def)
  have g2: "getApiKey (ex_db\<lparr>api_keys := [ex_key\<lparr>expires_at := Some 5\<rparr>]\<rparr>) (sha256 ex_env ''secret'')
      = Some (select_info (ex_key\<lparr>expires_at := Some 5\<rparr>) ex_user)"
    by (simp add: ex_getApiKey ex_key_def ex_env_def)
  from paused_before_expired_before_quota [OF m k kn n ex_regex g1, of 0]
       paused_before_expired_before_quota [OF m k kn n ex_regex g2, of 5]
  show ?thesis
    by (simp add: select_info_def ex_key_def ex_env_def)
qed

subsection \<open>Usage records on the exit paths\<close>

text \<open>C4, as the specification states it, fails: a paused key is resolved and answered with
  status 403 with no usage record written, and when the usage insert fails on the
  upstream-failure path the response 503 that a successful insert is followed by is not sent.\<close>

theorem usage_record_counterexample:
  "getApiKey (ex_db\<lparr>api_keys := [ex_key\<lparr>is_paused := True\<rparr>]\<rparr>) (sha256 ex_env ''secret'')
     = Some (select_info (ex_key\<lparr>is_paused := True\<rparr>) ex_user)
   \<and> handler ex_env ex_req (ex_db\<lparr>api_keys := [ex_key\<lparr>is_paused := True\<rparr>]\<rparr>)
     = (Responded 403 (ErrorBody ''API key is currently paused''),
        ex_db\<lparr>api_keys := [ex_key\<lparr>is_paused := True\<rparr>]\<rparr>)
   \<and> api_usage_logs (ex_db\<lparr>api_keys := [ex_key\<lparr>is_paused := True\<rparr>]\<rparr>) = []
   \<and> fst (handler (ex_env\<lparr>upstream := UpstreamThrows ''timeout of 10000ms exceeded'',
                              usage_write_ok := True\<rparr>) ex_req ex_db)
     = Responded 503 (ErrorRetryBody ''Service temporarily unavailable. Please try again later.'' 60)
   \<and> fst (handler (ex_env\<lparr>upstream := UpstreamThrows ''timeout of 10000ms exceeded'',
                              usage_write_ok := False\<rparr>) ex_req ex_db)
     = Uncaught (ReferenceError ''apiKeyInfo is not defined'')"
proof -
  let ?d = "ex_db\<lparr>api_keys := [ex_key\<lparr>is_paused := True\<rparr>]\<rparr>"
  have g: "getApiKey ?d (sha256 ex_env ''secret'') = Some (select_info (ex_key\<lparr>is_paused := True\<rparr>) ex_user)"
    by (simp add: ex_getApiKey ex_key_def ex_env_def)
  have ne: "''9876543210'' \<noteq> []" by simp
  have p: "handler ex_env ex_req ?d = (Responded 403 (ErrorBody ''API key is currently paused''), ?d)"
    by (simp add: handler_get [OF ex_request_facts ne] try_block_resolved [OF ex_regex g] select_info_def)
  have l: "api_usage_logs ?d = []" by (simp add: ex_db_def)
  have b: "base_api_call (ex_env\<lparr>upstream := UpstreamThrows ''timeout of 10000ms exceeded'', usage_write_ok := w\<rparr>)
             ''9876543210'' = Inl (Error ''timeout of 10000ms exceeded'')" for w
    by (simp add: base_api_call_def)
  have ok: "fst (handler (ex_env\<lparr>upstream := UpstreamThrows ''timeout of 10000ms exceeded'',
                              usage_write_ok := True\<rparr>) ex_req ex_db)
     = Responded 503 (ErrorRetryBody ''Service temporarily unavailable. Please try again later.'' 60)"
    by (simp add: handler_admitted [OF ex_request_facts ex_regex ex_resolved ex_not_paused
          ex_not_expired ex_within_limits] b)
  have ko: "fst (handler (ex_env\<lparr>upstream := UpstreamThrows ''timeout of 10000ms exceeded'',
                              usage_write_ok := False\<rparr>) ex_req ex_db)
     = Uncaught (ReferenceError ''apiKeyInfo is not defined'')"
    by (simp add: handler_admitted [OF ex_request_facts ex_regex ex_resolved ex_not_paused
          ex_not_expired ex_within_limits] b)
  from g p l ok ko show ?thesis by simp
qed

text \<open>C4, amended. On a well-formed lookup request whose key resolves: the paused and the
  expired rejection leave the store as it was (no usage record); an admitted request whose
  upstream call fails appends exactly one usage record with outcome \<open>error\<close>; an admitted
  request with a well-shaped upstream body (no \<open>null\<close> entry) appends exactly one usage
  record with outcome \<open>success\<close>; and when the usage insert fails, neither the 200 nor the
  503 response is sent (the insert is awaited with no guard of its own).\<close>

theorem usage_record_paths:
  assumes "http_method req = ''GET''" and "q_key req = Some key" and "key \<noteq> []"
    and "q_number req = Some number" and "mobileRegex_test number"
    and "getApiKey d (sha256 e key) = Some info"
  shows "(info_is_paused info \<longrightarrow> snd (handler e req d) = d)
       \<and> (\<not> info_is_paused info \<and> key_expired (now e) info \<longrightarrow> snd (handler e req d) = d)
       \<and> (\<not> info_is_paused info \<and> \<not> key_expired (now e) info
            \<and> checkRateLimit d (now e) (id' info) (clientIp_of req) = Inr ok
            \<and> upstream_failed (upstream e) \<and> usage_write_ok e \<longrightarrow>
              api_usage_logs (snd (handler e req d))
                = api_usage_logs d @ [usage_record d e req (id' info) number ''error''])
       \<and> (\<not> info_is_paused info \<and> \<not> key_expired (now e) info
            \<and> checkRateLimit d (now e) (id' info) (clientIp_of req) = Inr ok
            \<and> upstream e = UpstreamData (JObj kvs) \<and> map_of kvs ''data'' = Some (JArr items)
            \<and> JNull \<notin> set items \<and> usage_write_ok e \<longrightarrow>
              api_usage_logs (snd (handler e req d))
                = api_usage_logs d @ [usage_record d e req (id' info) number ''success''])
       \<and> (\<not> info_is_paused info \<and> \<not> key_expired (now e) info
            \<and> checkRateLimit d (now e) (id' info) (clientIp_of req) = Inr ok
            \<and> \<not> usage_write_ok e \<longrightarrow>
              (\<forall>b. fst (handler e req d) \<noteq> Responded 200 b
                  \<and> fst (handler e req d) \<noteq> Responded 503 b))"
proof -
  have ne: "number \<noteq> []" using assms(5) by (rule mobileRegex_nonempty)
  note run = handler_get [OF assms(1-4) ne] try_block_resolved [OF assms(5,6)]
  have paused: "info_is_paused info \<longrightarrow> snd (handler e req d) = d"
    by (simp add: run)
  have expired: "\<not> info_is_paused info \<and> key_expired (now e) info \<longrightarrow> snd (handler e req d) = d"
    by (simp add: run)
  have failure: "api_usage_logs (snd (handler e req d))
                = api_usage_logs d @ [usage_record d e req (id' info) number ''error'']"
    if adm: "\<not> info_is_paused info" "\<not> key_expired (now e) info"
       "checkRateLimit d (now e) (id' info) (clientIp_of req) = Inr ok"
      and up: "upstream_failed (upstream e)" and wr: "usage_write_ok e"
  proof -
    obtain err where "base_api_call e number = Inl err"
      using base_api_call_failed [OF up] by blast
    then show ?thesis
      using wr by (simp add: handler_admitted [OF assms adm])
  qed
  have success: "api_usage_logs (snd (handler e req d))
                = api_usage_logs d @ [usage_record d e req (id' info) number ''success'']"
    if "\<not> info_is_paused info" "\<not> key_expired (now e) info"
       "checkRateLimit d (now e) (id' info) (clientIp_of req) = Inr ok"
       "upstream e = UpstreamData (JObj kvs)" "map_of kvs ''data'' = Some (JArr items)"
       "JNull \<notin> set items" "usage_write_ok e"
    using that(7)
    by (simp add: handler_admitted [OF assms that(1-3)] base_api_call_data [OF that(4,5)]
          clean_all_non_null [OF that(6)])
  have unwritten: "fst (handler e req d) \<noteq> Responded 200 b \<and> fst (handler e req d) \<noteq> Responded 503 b"
    if "\<not> info_is_paused info" "\<not> key_expired (now e) info"
       "checkRateLimit d (now e) (id' info) (clientIp_of req) = Inr ok"
       "\<not> usage_write_ok e" for b
    using that(4) by (simp add: handler_admitted [OF assms that(1-3)] split: sum.splits)
  from paused expired failure success unwritten show ?thesis
    by blast
qed

theorem usage_record_paths_witness:
  "api_usage_logs (snd (handler (ex_env\<lparr>upstream := UpstreamThrows ''timeout of 10000ms exceeded'',
                               usage_write_ok := True\<rparr>) ex_req ex_db))
     = [\<lparr> api_key_id = 1, mobile_number = ''9876543210'', response_time = 120,
          status = ''error'', ip_address = ''1.2.3.4'', user_agent = Some ''curl'',
          created_at = 8726400005 \<rparr>]
   \<and> fst (handler (ex_env\<lparr>upstream := UpstreamThrows ''timeout of 10000ms exceeded'',
                        usage_write_ok := False\<rparr>) ex_req ex_db)
       \<noteq> Responded 503 (ErrorRetryBody ''Service temporarily unavailable. Please try again later.'' 60)"
proof -
  let ?e = "\<lambda>w. ex_env\<lparr>upstream := UpstreamThrows ''timeout of 10000ms exceeded'', usage_write_ok := w\<rparr>"
  have f: "upstream_failed (upstream (?e w))" for w by simp
  have w: "usage_write_ok (?e True)" "\<not> usage_write_ok (?e False)" by simp_all
  have limits: "checkRateLimit ex_db (now (?e w)) (id' (select_info ex_key ex_user)) (clientIp_of ex_req) = Inr True" for w
    by (rule ex_within_limits)
  from usage_record_paths [OF ex_request_facts ex_regex
      ex_resolved [where u = "UpstreamThrows ''timeout of 10000ms exceeded''" and w = True], of True]
    ex_not_paused ex_not_expired limits [of True] f [of True] w(1)
  have a: "api_usage_logs (snd (handler (?e True) ex_req ex_db))
      = api_usage_logs ex_db @ [usage_record ex_db (?e True) ex_req (id' (select_info ex_key ex_user)) ''9876543210'' ''error'']"
    by blast
  from usage_record_paths [OF ex_request_facts ex_regex
      ex_resolved [where u = "UpstreamThrows ''timeout of 10000ms exceeded''" and w = False], of True]
    ex_not_paused ex_not_expired limits [of False] w(2)
  have b: "fst (handler (?e False) ex_req ex_db)
       \<noteq> Responded 503 (ErrorRetryBody ''Service temporarily unavailable. Please try again later.'' 60)"
    by blast
  have i: "id' (select_info ex_key ex_user) = 1"
    by (simp add: select_info_def ex_key_def)
  from a b show ?thesis
    by (simp add: i ex_usage_record) (simp add: ex_db_def)
qed

subsection \<open>Upstream failure\<close>

text \<open>C5, as the specification states it, fails when the usage insert fails: for an admitted
  request whose upstream call times out, the insert of the error record is awaited with no
  guard of its own, so its failure ends the inner \<open>catch\<close> block before the response is
  built; the response 503 is not sent and no usage record is written.\<close>

theorem upstream_failure_unwritten_counterexample:
  "upstream_failed (upstream (ex_env\<lparr>upstream := UpstreamThrows ''timeout of 10000ms exceeded'',
                                      usage_write_ok := False\<rparr>))
   \<and> checkRateLimit ex_db 8726400005 1 ''1.2.3.4'' = Inr True
   \<and> fst (handler (ex_env\<lparr>upstream := UpstreamThrows ''timeout of 10000ms exceeded'',
                        usage_write_ok := False\<rparr>) ex_req ex_db)
       \<noteq> Responded 503 (ErrorRetryBody ''Service temporarily unavailable. Please try again later.'' 60)
   \<and> api_usage_logs (snd (handler (ex_env\<lparr>upstream := UpstreamThrows ''timeout of 10000ms exceeded'',
                                        usage_write_ok := False\<rparr>) ex_req ex_db)) = []"
proof -
  let ?e = "ex_env\<lparr>upstream := UpstreamThrows ''timeout of 10000ms exceeded'', usage_write_ok := False\<rparr>"
  have b: "base_api_call ?e ''9876543210'' = Inl (Error ''timeout of 10000ms exceeded'')"
    by (simp add: base_api_call_def)
  have l: "checkRateLimit ex_db 8726400005 1 ''1.2.3.4'' = Inr True"
    using ex_within_limits [of 8726400005] by (simp add: ex_clientIp select_info_def ex_key_def)
  have h: "handler ?e ex_req ex_db = (Uncaught (ReferenceError ''apiKeyInfo is not defined''), ex_db)"
    by (simp add: handler_admitted [OF ex_request_facts ex_regex ex_resolved ex_not_paused
          ex_not_expired ex_within_limits] b)
  have "api_usage_logs ex_db = []" by (simp add: ex_db_def)
  with l h show ?thesis by simp
qed

text \<open>C5, amended. For an admitted request (well-formed, key resolved, not paused, not
  expired, within the rate and quota limits) whose upstream call fails (the client throws on
  a timeout or a status outside 2xx, or the body is not an object with an array field
  \<open>data\<close>), and whose usage insert the store accepts: the handler responds 503 with the fixed
  message and \<open>retryAfter\<close> 60, appends exactly one usage record, with outcome \<open>error\<close> and
  the client's address, and leaves the keys (hence the consumed count) as they were; the
  response is the same whatever the upstream address, the upstream credential and the raw
  error text are.\<close>

theorem upstream_failure_503:
  assumes "http_method req = ''GET''" and "q_key req = Some key" and "key \<noteq> []"
    and "q_number req = Some number" and "mobileRegex_test number"
    and "getApiKey d (sha256 e key) = Some info"
    and "\<not> info_is_paused info" and "\<not> key_expired (now e) info"
    and "checkRateLimit d (now e) (id' info) (clientIp_of req) = Inr ok"
    and "upstream_failed (upstream e)" and "usage_write_ok e"
  shows "(\<exists>addr. inet_in d (clientIp_of req) = Some addr
           \<and> handler e req d =
               (Responded 503 (ErrorRetryBody ''Service temporarily unavailable. Please try again later.'' 60),
                d\<lparr>api_usage_logs := api_usage_logs d @
                     [\<lparr> api_key_id = id' info, mobile_number = number,
                        response_time = upstream_elapsed e, status = ''error'', ip_address = addr,
                        user_agent = h_user_agent req, created_at = now e \<rparr>]\<rparr>))
       \<and> api_keys (snd (handler e req d)) = api_keys d
       \<and> fst (handler (e\<lparr>BASE_API_URL := url, BASE_API_KEY := cred, upstream := UpstreamThrows raw\<rparr>) req d)
           = fst (handler e req d)"
proof -
  obtain err where f: "base_api_call e number = Inl err"
    using base_api_call_failed [OF assms(10)] by blast
  obtain addr where addr: "inet_in d (clientIp_of req) = Some addr"
    using checkRateLimit_address [OF assms(9)] by blast
  have h: "handler e req d =
           (Responded 503 (ErrorRetryBody ''Service temporarily unavailable. Please try again later.'' 60),
            d\<lparr>api_usage_logs := api_usage_logs d @ [usage_record d e req (id' info) number ''error'']\<rparr>)"
    using assms(11) by (simp add: handler_admitted [OF assms(1-9)] f)
  let ?e = "e\<lparr>BASE_API_URL := url, BASE_API_KEY := cred, upstream := UpstreamThrows raw\<rparr>"
  have f': "base_api_call ?e number = Inl (Error raw)"
    by (simp add: base_api_call_def)
  have h': "fst (handler ?e req d) =
      Responded 503 (ErrorRetryBody ''Service temporarily unavailable. Please try again later.'' 60)"
    using assms(6-9,11) by (subst handler_admitted [OF assms(1-5), of d ?e info ok]) (simp_all add: f')
  show ?thesis
    by (simp add: h h' usage_record_def addr)
qed

theorem upstream_failure_503_witness:
  "handler (ex_env\<lparr>upstream := UpstreamThrows ''timeout of 10000ms exceeded'', usage_write_ok := True\<rparr>)
       ex_req ex_db
     = (Responded 503 (ErrorRetryBody ''Service temporarily unavailable. Please try again later.'' 60),
        ex_db\<lparr>api_usage_logs :=
          [\<lparr> api_key_id = 1, mobile_number = ''9876543210'', response_time = 120,
             status = ''error'', ip_address = ''1.2.3.4'', user_agent = Some ''curl'',
             created_at = 8726400005 \<rparr>]\<rparr>)"
proof -
  let ?e = "ex_env\<lparr>upstream := UpstreamThrows ''timeout of 10000ms exceeded'', usage_write_ok := True\<rparr>"
  have f: "upstream_failed (upstream ?e)" and w: "usage_write_ok ?e"
    by simp_all
  have i: "id' (select_info ex_key ex_user) = 1"
    by (simp add: select_info_def ex_key_def)
  from upstream_failure_503 [OF ex_request_facts ex_regex ex_resolved ex_not_paused
      ex_not_expired ex_within_limits f w, THEN conjunct1]
  have "handler ?e ex_req ex_db =
      (Responded 503 (ErrorRetryBody ''Service temporarily unavailable. Please try again later.'' 60),
       ex_db\<lparr>api_usage_logs := api_usage_logs ex_db @
          [\<lparr> api_key_id = 1, mobile_number = ''9876543210'', response_time = 120,
             status = ''error'', ip_address = ''1.2.3.4'', user_agent = Some ''curl'',
             created_at = 8726400005 \<rparr>]\<rparr>)"
    by (simp add: ex_address ex_env_fields ex_user_agent i)
  then show ?thesis by (simp add: ex_db_def)
qed

subsection \<open>Projection of the upstream entries\<close>

text \<open>C6, as the specification states it, fails for an upstream body that passes the shape
  check but holds a \<open>null\<close> entry: reading \<open>item.name\<close> throws and no success response is
  sent.\<close>

theorem null_entry_counterexample:
  "base_api_call (ex_env\<lparr>upstream := UpstreamData (JObj [(''data'', JArr [JNull])]), usage_write_ok := True\<rparr>)
       ''9876543210'' = Inr [JNull]
   \<and> handler (ex_env\<lparr>upstream := UpstreamData (JObj [(''data'', JArr [JNull])]), usage_write_ok := True\<rparr>)
       ex_req ex_db
     = (Uncaught (ReferenceError ''apiKeyInfo is not defined''), ex_db)"
proof -
  let ?e = "ex_env\<lparr>upstream := UpstreamData (JObj [(''data'', JArr [JNull])]), usage_write_ok := True\<rparr>"
  have b: "base_api_call ?e ''9876543210'' = Inr [JNull]"
    by (simp add: base_api_call_def validate_base_response_def)
  have "handler ?e ex_req ex_db = (Uncaught (ReferenceError ''apiKeyInfo is not defined''), ex_db)"
    by (simp add: handler_admitted [OF ex_request_facts ex_regex ex_resolved ex_not_paused
          ex_not_expired ex_within_limits] b clean_item_def)
  with b show ?thesis by simp
qed

text \<open>C6, amended. For an admitted request whose upstream body is an object with an array
  field \<open>data\<close> none of whose entries is \<open>null\<close> (and whose usage insert succeeds), the
  handler responds 200 with \<open>success = true\<close>, \<open>data\<close> the entries projected in order onto
  the seven fields, \<open>meta.query\<close> the queried number and \<open>meta.results\<close> the length of
  \<open>data\<close>. In a projected entry a missing field is \<open>"N/A"\<close>, a missing \<open>mobile\<close> is the
  queried number, and a field present with a truthy value keeps that value.\<close>

theorem projection_of_entries:
  assumes "http_method req = ''GET''" and "q_key req = Some key" and "key \<noteq> []"
    and "q_number req = Some number" and "mobileRegex_test number"
    and "getApiKey d (sha256 e key) = Some info"
    and "\<not> info_is_paused info" and "\<not> key_expired (now e) info"
    and "checkRateLimit d (now e) (id' info) (clientIp_of req) = Inr ok"
    and "upstream e = UpstreamData (JObj kvs)" and "map_of kvs ''data'' = Some (JArr items)"
    and "JNull \<notin> set items" and "usage_write_ok e"
  shows "fst (handler e req d) =
           Responded 200 (SuccessBody True (map (project_item number) items)
              \<lparr> query = number, results = length items, processed_at = now e \<rparr>)
       \<and> (\<forall>item \<in> set items.
            (prop_of item ''name'' = None \<longrightarrow> name (project_item number item) = JStr ''N/A'')
          \<and> (prop_of item ''fname'' = None \<longrightarrow> fname (project_item number item) = JStr ''N/A'')
          \<and> (prop_of item ''mobile'' = None \<longrightarrow> mobile (project_item number item) = JStr number)
          \<and> (prop_of item ''alt'' = None \<longrightarrow> alt (project_item number item) = JStr ''N/A'')
          \<and> (prop_of item ''address'' = None \<longrightarrow> address (project_item number item) = JStr ''N/A'')
          \<and> (prop_of item ''circle'' = None \<longrightarrow> circle (project_item number item) = JStr ''N/A'')
          \<and> (prop_of item ''id'' = None \<longrightarrow> ident (project_item number item) = JStr ''N/A'')
          \<and> (\<forall>v. truthy v \<longrightarrow>
                 (prop_of item ''name'' = Some v \<longrightarrow> name (project_item number item) = v)
               \<and> (prop_of item ''fname'' = Some v \<longrightarrow> fname (project_item number item) = v)
               \<and> (prop_of item ''mobile'' = Some v \<longrightarrow> mobile (project_item number item) = v)
               \<and> (prop_of item ''alt'' = Some v \<longrightarrow> alt (project_item number item) = v)
               \<and> (prop_of item ''address'' = Some v \<longrightarrow> address (project_item number item) = v)
               \<and> (prop_of item ''circle'' = Some v \<longrightarrow> circle (project_item number item) = v)
               \<and> (prop_of item ''id'' = Some v \<longrightarrow> ident (project_item number item) = v)))"
proof -
  have "fst (handler e req d) =
           Responded 200 (SuccessBody True (map (project_item number) items)
              \<lparr> query = number, results = length items, processed_at = now e \<rparr>)"
    using assms(13)
    by (simp add: handler_admitted [OF assms(1-9)] base_api_call_data [OF assms(10,11)]
          clean_all_non_null [OF assms(12)])
  then show ?thesis
    by (simp add: project_item_def or_default_def)
qed

theorem projection_of_entries_witness:
  "fst (handler (ex_env\<lparr>upstream := UpstreamData (JObj [(''data'', JArr [JObj [(''name'', JStr ''A''), (''id'', JNum 0)]])]),
                        usage_write_ok := True\<rparr>) ex_req ex_db)
     = Responded 200 (SuccessBody True
         [\<lparr> name = JStr ''A'', fname = JStr ''N/A'', mobile = JStr ''9876543210'', alt = JStr ''N/A'',
            address = JStr ''N/A'', circle = JStr ''N/A'', ident = JStr ''N/A'' \<rparr>]
         \<lparr> query = ''9876543210'', results = 1, processed_at = 8726400005 \<rparr>)"
proof -
  let ?items = "[JObj [(''name'', JStr ''A''), (''id'', JNum 0)]]"
  let ?e = "ex_env\<lparr>upstream := UpstreamData (JObj [(''data'', JArr ?items)]), usage_write_ok := True\<rparr>"
  have u: "upstream ?e = UpstreamData (JObj [(''data'', JArr ?items)])"
    and m: "map_of [(''data'', JArr ?items)] ''data'' = Some (JArr ?items)"
    and n: "JNull \<notin> set ?items" and w: "usage_write_ok ?e"
    by simp_all
  from projection_of_entries [OF ex_request_facts ex_regex ex_resolved ex_not_paused
      ex_not_expired ex_within_limits u m n w, THEN conjunct1]
  show ?thesis
    by (simp add: project_item_def or_default_def ex_env_fields)
qed

subsection \<open>Malformed subject\<close>

text \<open>C3, at the request \<open>GET /api/lookup?key=secret&number=12345\<close>. The subject fails the
  format test and \<open>validateMobileNumber\<close> throws before any fingerprint, key lookup or
  quota work; the catch block chooses status 400 for the message, but then evaluates
  \<open>apiKeyInfo?.id\<close>, a name declared with \<open>const\<close> inside the \<open>try\<close> block, so a
  ReferenceError escapes the handler and the response 400 is never sent. The store is
  unchanged: no usage record is written.\<close>

theorem malformed_subject_no_response:
  "\<not> mobileRegex_test ''12345''
   \<and> error_status ''Invalid mobile number. Must be 10 digits starting with 6-9.''
       = (400, ''Invalid mobile number format'')
   \<and> handler ex_env (ex_req\<lparr>q_number := Some ''12345''\<rparr>) ex_db
       = (Uncaught (ReferenceError ''apiKeyInfo is not defined''), ex_db)"
proof -
  have r: "\<not> mobileRegex_test ''12345''"
    by (simp add: mobileRegex_test_def)
  have s: "error_status ''Invalid mobile number. Must be 10 digits starting with 6-9.''
       = (400, ''Invalid mobile number format'')"
    by (simp add: error_status_def)
  have "handler ex_env (ex_req\<lparr>q_number := Some ''12345''\<rparr>) ex_db
       = (Uncaught (ReferenceError ''apiKeyInfo is not defined''), ex_db)"
    by (rule handler_invalid_number [where key = "''secret''" and number = "''12345''"])
       (simp_all add: ex_req_def r)
  with r s show ?thesis by simp
qed

subsection \<open>Day rollover and the quota check\<close>

text \<open>C1, at a key with budget 10 that consumed 10 on day 100, for a request on day 101.
  \<open>checkRateLimit\<close> compares the stored \<open>daily_used\<close> with \<open>daily_limit\<close> without
  looking at \<open>last_reset_date\<close>, so the first request of the new day is refused with the
  quota error; \<open>incrementApiUsage\<close>, which holds the rollover rule, is not reached, and the
  stored count stays 10 and the stored day stays 100.\<close>

theorem exhausted_key_stays_blocked:
  "last_reset_date (ex_key\<lparr>daily_used := 10\<rparr>) = Some 100
   \<and> today_of (now ex_env) = 101
   \<and> checkRateLimit (ex_db\<lparr>api_keys := [ex_key\<lparr>daily_used := 10\<rparr>]\<rparr>) (now ex_env) 1 ''1.2.3.4''
       = Inl (Error ''Daily quota exceeded for this API key.'')
   \<and> handler ex_env ex_req (ex_db\<lparr>api_keys := [ex_key\<lparr>daily_used := 10\<rparr>]\<rparr>)
       = (Uncaught (ReferenceError ''apiKeyInfo is not defined''),
          ex_db\<lparr>api_keys := [ex_key\<lparr>daily_used := 10\<rparr>]\<rparr>)"
proof -
  let ?k = "ex_key\<lparr>daily_used := 10\<rparr>"
  let ?d = "ex_db\<lparr>api_keys := [?k]\<rparr>"
  have a: "last_reset_date ?k = Some 100" by (simp add: ex_key_def)
  have b: "today_of (now ex_env) = 101" by (simp add: today_of_def day_ms_def ex_env_def)
  have c: "checkRateLimit ?d t 1 ''1.2.3.4'' = Inl (Error ''Daily quota exceeded for this API key.'')" for t
    by (simp add: checkRateLimit_def ipUsage_def address_usage_def ex_db_def ex_inet_def ex_key_def)
  have g: "getApiKey ?d (sha256 ex_env ''secret'') = Some (select_info ?k ex_user)"
    by (simp add: ex_getApiKey ex_key_def ex_env_def)
  have i: "id' (select_info ?k ex_user) = 1" "\<not> info_is_paused (select_info ?k ex_user)"
    "\<not> key_expired t (select_info ?k ex_user)" for t
    by (simp_all add: select_info_def key_expired_def ex_key_def)
  have "handler ex_env ex_req ?d = (Uncaught (ReferenceError ''apiKeyInfo is not defined''), ?d)"
    by (rule handler_rejected_by_limits [OF ex_request_facts ex_regex g i(2,3)])
       (simp add: i(1) ex_clientIp c)
  with a b c show ?thesis by simp
qed

subsection \<open>The rate limit by address\<close>

text \<open>C7, as the specification states it, fails: with 100 usage records of one address at
  00:59:59, a request at 01:00:01 falls into the next calendar-hour bucket, where a count that
  resets at the hour boundary is 0, yet \<open>checkRateLimit\<close> refuses it.\<close>

theorem hour_boundary_counterexample:
  "hour_bucket 3599000 = 0 \<and> hour_bucket 3601000 = 1
   \<and> bucketUsage (ex_db\<lparr>api_usage_logs := replicate 100 ex_record\<rparr>) 3601000 ''1.2.3.4'' = 0
   \<and> checkRateLimit (ex_db\<lparr>api_usage_logs := replicate 100 ex_record\<rparr>) 3601000 1 ''1.2.3.4''
       = Inl (Error ''Rate limit exceeded. Too many requests from this IP.'')"
  by (simp add: hour_bucket_def bucketUsage_def checkRateLimit_def ipUsage_def address_usage_def
        hour_ms_def ex_db_def ex_inet_def ex_record_def)

text \<open>C7, amended. The limiter refuses a request exactly when the client's text is an address
  and at least 100 usage records with that address were created within the hour that ends at
  the request (a rolling hour: \<open>created_at > now - 1 hour\<close>); the count is taken over the
  usage records, whatever keys they belong to and whatever key the request presents; and a
  request refused by the limiter changes no key (it consumes no quota) and gets neither the
  200 nor the 503 response. Which status it gets and whether a usage record is written for
  it are left open.\<close>

theorem rate_limit_rolling_hour:
  "(checkRateLimit d t kid ip = Inl (Error ''Rate limit exceeded. Too many requests from this IP.''))
     = (\<exists>addr. inet_in d ip = Some addr
          \<and> 100 \<le> length (filter (\<lambda>r. ip_address r = addr \<and> t - 3600000 < created_at r)
                             (api_usage_logs d)))
   \<and> ipUsage (d\<lparr>api_usage_logs := map (api_key_id_update f) (api_usage_logs d)\<rparr>) t ip = ipUsage d t ip
   \<and> (http_method req = ''GET'' \<and> q_key req = Some key \<and> key \<noteq> [] \<and> q_number req = Some number
        \<and> mobileRegex_test number \<and> getApiKey d (sha256 e key) = Some info
        \<and> \<not> info_is_paused info \<and> \<not> key_expired (now e) info
        \<and> inet_in d (clientIp_of req) = Some a
        \<and> 100 \<le> length (filter (\<lambda>r. ip_address r = a \<and> now e - 3600000 < created_at r)
                           (api_usage_logs d)) \<longrightarrow>
          api_keys (snd (handler e req d)) = api_keys d
          \<and> (\<forall>b. fst (handler e req d) \<noteq> Responded 200 b \<and> fst (handler e req d) \<noteq> Responded 503 b))"
proof -
  have a: "(checkRateLimit d t kid ip = Inl (Error ''Rate limit exceeded. Too many requests from this IP.''))
     = (\<exists>addr. inet_in d ip = Some addr
          \<and> 100 \<le> length (filter (\<lambda>r. ip_address r = addr \<and> t - 3600000 < created_at r)
                             (api_usage_logs d)))" for t kid ip
    by (simp add: checkRateLimit_def ipUsage_def address_usage_def hour_ms_def split: option.splits)
  have c: "api_keys (snd (handler e req d)) = api_keys d
          \<and> (\<forall>b. fst (handler e req d) \<noteq> Responded 200 b \<and> fst (handler e req d) \<noteq> Responded 503 b)"
    if r: "http_method req = ''GET''" "q_key req = Some key" "key \<noteq> []" "q_number req = Some number"
       "mobileRegex_test number" "getApiKey d (sha256 e key) = Some info"
       "\<not> info_is_paused info" "\<not> key_expired (now e) info"
      and addr: "inet_in d (clientIp_of req) = Some a"
      and full: "100 \<le> length (filter (\<lambda>r. ip_address r = a \<and> now e - 3600000 < created_at r)
                           (api_usage_logs d))"
  proof -
    have "checkRateLimit d (now e) (id' info) (clientIp_of req)
            = Inl (Error ''Rate limit exceeded. Too many requests from this IP.'')"
      using addr full by (simp add: a)
    from handler_rejected_by_limits [OF r this] show ?thesis by simp
  qed
  from a [of t kid ip] ipUsage_keys [of f d t ip] c show ?thesis by blast
qed

theorem rate_limit_rolling_hour_witness:
  "checkRateLimit (ex_db\<lparr>api_usage_logs := replicate 100 (ex_record\<lparr>created_at := 8726400000\<rparr>)\<rparr>)
       8726400005 1 ''1.2.3.4/32''
     = Inl (Error ''Rate limit exceeded. Too many requests from this IP.'')
   \<and> api_keys (snd (handler ex_env ex_req
         (ex_db\<lparr>api_usage_logs := replicate 100 (ex_record\<lparr>created_at := 8726400000\<rparr>)\<rparr>)))
     = [ex_key]"
proof -
  let ?d = "ex_db\<lparr>api_usage_logs := replicate 100 (ex_record\<lparr>created_at := 8726400000\<rparr>)\<rparr>"
  have n: "now ex_env = 8726400005" by (simp add: ex_env_def)
  have i: "inet_in ?d ''1.2.3.4/32'' = Some ''1.2.3.4''" "inet_in ?d (clientIp_of ex_req) = Some ''1.2.3.4''"
    by (simp_all add: ex_db_def ex_inet_def ex_clientIp)
  have f: "length (filter (\<lambda>r. ip_address r = ''1.2.3.4'' \<and> 8726400005 - 3600000 < created_at r)
              (api_usage_logs ?d)) = 100"
    by (simp add: ex_record_def)
  have g: "getApiKey ?d (sha256 ex_env ''secret'') = Some (select_info ex_key ex_user)"
    using ex_resolved [of True "upstream ex_env"] by (simp add: getApiKey_logs ex_env_def)
  from rate_limit_rolling_hour [of ?d 8726400005 1 "''1.2.3.4/32''" id ex_req "''secret''" "''9876543210''"
      ex_env "select_info ex_key ex_user" "''1.2.3.4''"] i(1) f
  have a: "checkRateLimit ?d 8726400005 1 ''1.2.3.4/32''
     = Inl (Error ''Rate limit exceeded. Too many requests from this IP.'')"
    by simp
  from rate_limit_rolling_hour [of ?d 8726400005 1 "''1.2.3.4/32''" id ex_req "''secret''" "''9876543210''"
      ex_env "select_info ex_key ex_user" "''1.2.3.4''"]
    ex_request_facts ex_regex g ex_not_paused ex_not_expired i(2) f
  have b: "api_keys (snd (handler ex_env ex_req ?d)) = api_keys ?d"
    by (simp add: n)
  have "api_keys ?d = [ex_key]" by (simp add: ex_db_def)
  with a b show ?thesis by simp
qed

subsection \<open>Keys of inactive users\<close>

text \<open>C10. Key resolution joins the key with its owner's row and never reads \<open>is_active\<close>:
  changing the activity flags of the users in any way changes neither what \<open>getApiKey\<close>
  returns nor what the lookup handler answers and writes; and, with fingerprints and user
  ids unique as the schema declares them, a stored key whose owner exists and is inactive
  resolves to its own record.\<close>

theorem inactive_owner_still_resolves:
  "getApiKey (set_is_active f d) h = getApiKey d h
   \<and> handler e req (set_is_active f d) = (fst (handler e req d), set_is_active f (snd (handler e req d)))
   \<and> (k \<in> set (api_keys d) \<and> u \<in> set (users d) \<and> user_id k = Some (u_id u) \<and> \<not> is_active u
        \<and> distinct (map key_hash (api_keys d)) \<and> distinct (map u_id (users d)) \<longrightarrow>
          getApiKey d (key_hash k) = Some (select_info k u))"
  using getApiKey_set_is_active handler_set_is_active getApiKey_owner by blast

theorem inactive_owner_still_resolves_witness:
  "getApiKey (ex_db\<lparr>users := [ex_user\<lparr>is_active := False\<rparr>]\<rparr>) ''h:secret''
     = Some (select_info ex_key (ex_user\<lparr>is_active := False\<rparr>))
   \<and> fst (handler ex_env ex_req (set_is_active (\<lambda>u. False) ex_db)) = fst (handler ex_env ex_req ex_db)"
proof -
  let ?u = "ex_user\<lparr>is_active := False\<rparr>"
  let ?d = "ex_db\<lparr>users := [?u]\<rparr>"
  have p: "ex_key \<in> set (api_keys ?d)" "?u \<in> set (users ?d)" "user_id ex_key = Some (u_id ?u)"
    "\<not> is_active ?u" "distinct (map key_hash (api_keys ?d))" "distinct (map u_id (users ?d))"
    "key_hash ex_key = ''h:secret''"
    by (simp_all add: ex_db_def ex_key_def ex_user_def)
  have a: "getApiKey ?d ''h:secret'' = Some (select_info ex_key ?u)"
    using inactive_owner_still_resolves [of "\<lambda>u. False" ?d "''h:secret''" ex_env ex_req ex_key ?u] p
    by simp
  have b: "fst (handler ex_env ex_req (set_is_active (\<lambda>u. False) ex_db)) = fst (handler ex_env ex_req ex_db)"
    using inactive_owner_still_resolves [of "\<lambda>u. False" ex_db "''h:secret''" ex_env ex_req ex_key ?u]
    by simp
  from a b show ?thesis by simp
qed

section \<open>Properties of the admin endpoints\<close>

subsection \<open>Sessions\<close>

text \<open>C8, at a session issued at second 1000 for user 7 and validated one minute later. The
  record is stored under \<open>session:abc\<close> with 86400 seconds to live, of which 86340 remain;
  its token verifies under the secret and carries the stored user id. Yet \<open>kv.get\<close> hands
  the record back as the parsed object, \<open>JSON.parse\<close> of an object throws, and
  \<open>validateSession\<close> returns \<open>null\<close> and leaves the store as it was: the issued session is
  not validated and its time-to-live is not renewed.\<close>

theorem issued_session_never_validates:
  "kv_ttl 1000000 ex_kv ''session:abc'' = Some 86400
   \<and> kv_ttl 1060000 ex_kv ''session:abc'' = Some 86340
   \<and> kv_get 1060000 ex_kv ''session:abc''
       = Some (ReplyObject \<lparr> s_token = generateToken ''jwt-secret'' 1000000 7 ''admin'',
                              s_userId = 7, s_username = ''admin'', createdAt = 1000000 \<rparr>)
   \<and> verifyToken ''jwt-secret'' 1060000 (generateToken ''jwt-secret'' 1000000 7 ''admin'')
       = Some \<lparr> userId = 7, tok_username = ''admin'', iat = 1000, exp = 87400 \<rparr>
   \<and> validateSession ''jwt-secret'' 1060000 ex_kv (Some ''abc'') = (None, ex_kv)"
proof -
  have a: "kv_ttl 1000000 ex_kv ''session:abc'' = Some 86400"
    by (simp add: kv_ttl_def ex_kv_entry)
  have b: "kv_ttl 1060000 ex_kv ''session:abc'' = Some 86340"
    by (simp add: kv_ttl_def ex_kv_entry)
  have c: "kv_get 1060000 ex_kv ''session:abc''
       = Some (ReplyObject \<lparr> s_token = generateToken ''jwt-secret'' 1000000 7 ''admin'',
                              s_userId = 7, s_username = ''admin'', createdAt = 1000000 \<rparr>)"
    by (simp add: kv_get_def ex_kv_entry)
  have "validateSession ''jwt-secret'' 1060000 ex_kv (Some ''abc'') = (None, ex_kv)"
    unfolding ex_kv_def by (rule validateSession_issued)
  with a b c ex_token_verifies show ?thesis by simp
qed

subsection \<open>Revocation\<close>



end
